theory Spec2Isabelle
  imports Complex_Main "HOL-Library.Sublist" "HOL-Library.Log_Nat"
begin

section \<open>A book pre-order shop, three times\<close>

text \<open>
  The repository holds three front ends of one book pre-order shop: a plain script
  (\<^verbatim>\<open>src/script.js\<close>), a React form that posts to a spreadsheet back end (the component
  \<^verbatim>\<open>App\<close>, first part of \<^verbatim>\<open>src/index.jsx\<close>) and a client-only React page that prints
  a slip (the component \<^verbatim>\<open>BookPreorderSite\<close>, last part of \<^verbatim>\<open>src/index.jsx\<close>). Each keeps
  a catalog and a cart; the first two submit the order to a remote service.

  Each handler is a function from the state it finds to the state it leaves, together
  with what it asks of the host (alerts, requests, the print dialog) and the exception
  it throws, if any. The remote service is an argument: how the request ends.
\<close>

section \<open>JavaScript values\<close>

text \<open>
  A JavaScript number is an IEEE 754 double: a real number, one of the two infinities, or
  \<open>NaN\<close>. The two zeros are one value: no handler divides by a variable or reads the sign
  of a zero. The functions below accept every real as an operand; the doubles are among
  them, and every result is one.
\<close>

datatype number = Num real | PInf | NInf | NaN

text \<open>
  Rounding to a double. \<open>binade x\<close> is the exponent \<open>e\<close> with \<open>2^e \<le> |x| < 2^(e + 1)\<close>
  (0 for \<open>x = 0\<close>); \<open>ulp x\<close> is the distance between the doubles around \<open>x\<close>, a mantissa
  of 53 bits above the exponent -1022 and the fixed distance \<open>2^-1074\<close> below;
  \<open>round_even\<close> is the nearest integer, a tie going to the even one; \<open>huge\<close> is \<open>2^1024\<close>,
  the first magnitude beyond every double. \<open>fl x\<close> is the double nearest to \<open>x\<close>, a tie
  going to the even mantissa, and an infinity where that is beyond the largest double.
\<close>

definition binade :: "real \<Rightarrow> int" where
  "binade x = (if 1 \<le> \<bar>x\<bar> then bitlen \<lfloor>\<bar>x\<bar>\<rfloor> - 1 else - bitlen (\<lceil>1 / \<bar>x\<bar>\<rceil> - 1))"

definition ulp :: "real \<Rightarrow> real" where
  "ulp x = 2 powi (max (binade x) (- 1022) - 52)"

definition round_even :: "real \<Rightarrow> int" where
  "round_even m =
     (let f = \<lfloor>m\<rfloor>; r = m - of_int f
      in if r < 1 / 2 then f else if 1 / 2 < r then f + 1 else if even f then f else f + 1)"

definition huge :: real where
  "huge = 2 ^ 1024"

definition fl :: "real \<Rightarrow> number" where
  "fl x =
     (let y = of_int (round_even (x / ulp x)) * ulp x
      in if huge \<le> y then PInf else if y \<le> - huge then NInf else Num y)"

text \<open>
  The operators \<^verbatim>\<open>+\<close>, \<^verbatim>\<open>-\<close> and \<^verbatim>\<open>*\<close>: the exact result, rounded. NaN gives NaN; so do
  the difference of two equal infinities and the product of an infinity and 0.
\<close>

fun add :: "number \<Rightarrow> number \<Rightarrow> number" where
  "add (Num a) (Num b) = fl (a + b)"
| "add NaN _ = NaN"
| "add _ NaN = NaN"
| "add PInf NInf = NaN"
| "add NInf PInf = NaN"
| "add PInf _ = PInf"
| "add NInf _ = NInf"
| "add _ PInf = PInf"
| "add _ NInf = NInf"

fun sub :: "number \<Rightarrow> number \<Rightarrow> number" where
  "sub (Num a) (Num b) = fl (a - b)"
| "sub NaN _ = NaN"
| "sub _ NaN = NaN"
| "sub PInf PInf = NaN"
| "sub NInf NInf = NaN"
| "sub PInf _ = PInf"
| "sub NInf _ = NInf"
| "sub _ PInf = NInf"
| "sub _ NInf = PInf"

fun mul :: "number \<Rightarrow> number \<Rightarrow> number" where
  "mul (Num a) (Num b) = fl (a * b)"
| "mul NaN _ = NaN"
| "mul _ NaN = NaN"
| "mul PInf (Num b) = (if b = 0 then NaN else if 0 < b then PInf else NInf)"
| "mul NInf (Num b) = (if b = 0 then NaN else if 0 < b then NInf else PInf)"
| "mul (Num a) PInf = (if a = 0 then NaN else if 0 < a then PInf else NInf)"
| "mul (Num a) NInf = (if a = 0 then NaN else if 0 < a then NInf else PInf)"
| "mul PInf PInf = PInf"
| "mul PInf NInf = NInf"
| "mul NInf PInf = NInf"
| "mul NInf NInf = PInf"

text \<open>Division: the only divisor in the sources is the literal 100.\<close>

fun divide100 :: "number \<Rightarrow> number" where
  "divide100 (Num a) = fl (a / 100)"
| "divide100 PInf = PInf"
| "divide100 NInf = NInf"
| "divide100 NaN = NaN"

text \<open>The comparisons \<^verbatim>\<open><\<close> and \<^verbatim>\<open>>\<close>: false as soon as an operand is NaN.\<close>

fun lt :: "number \<Rightarrow> number \<Rightarrow> bool" where
  "lt (Num a) (Num b) = (a < b)"
| "lt NaN _ = False"
| "lt _ NaN = False"
| "lt PInf _ = False"
| "lt _ NInf = False"
| "lt NInf _ = True"
| "lt _ PInf = True"

fun gt :: "number \<Rightarrow> number \<Rightarrow> bool" where
  "gt a b = lt b a"

text \<open>\<^verbatim>\<open>Math.max\<close>, \<^verbatim>\<open>Math.min\<close>: NaN as soon as an argument is NaN.\<close>

fun Math_max :: "number \<Rightarrow> number \<Rightarrow> number" where
  "Math_max (Num a) (Num b) = Num (max a b)"
| "Math_max NaN _ = NaN"
| "Math_max _ NaN = NaN"
| "Math_max PInf _ = PInf"
| "Math_max _ PInf = PInf"
| "Math_max NInf b = b"
| "Math_max a NInf = a"

fun Math_min :: "number \<Rightarrow> number \<Rightarrow> number" where
  "Math_min (Num a) (Num b) = Num (min a b)"
| "Math_min NaN _ = NaN"
| "Math_min _ NaN = NaN"
| "Math_min NInf _ = NInf"
| "Math_min _ NInf = NInf"
| "Math_min PInf b = b"
| "Math_min a PInf = a"

text \<open>
  \<^verbatim>\<open>Math.round\<close>: the nearest integer, a tie going up. The integer nearest to a double
  is a double, so nothing is rounded a second time.
\<close>

fun Math_round :: "number \<Rightarrow> number" where
  "Math_round (Num a) = Num (of_int \<lfloor>a + 1 / 2\<rfloor>)"
| "Math_round PInf = PInf"
| "Math_round NInf = NInf"
| "Math_round NaN = NaN"

text \<open>Truthiness of a number: 0 and NaN are falsy.\<close>

fun truthy :: "number \<Rightarrow> bool" where
  "truthy (Num a) = (a \<noteq> 0)"
| "truthy PInf = True"
| "truthy NInf = True"
| "truthy NaN = False"

text \<open>\<^verbatim>\<open>a || b\<close> on two numbers.\<close>

definition or_num :: "number \<Rightarrow> number \<Rightarrow> number" where
  "or_num a b = (if truthy a then a else b)"

text \<open>
  A value that JSON brings: a price of the sheet or of the book list. It is absent
  (\<^verbatim>\<open>undefined\<close>), \<^verbatim>\<open>null\<close>, a boolean, a number or a text; arrays and objects are left out.
  Of a text the handlers read whether it is empty and the number \<^verbatim>\<open>Number(text)\<close>, so a
  text that is not empty is kept as that number: \<open>JText (Num 385)\<close> for \<^verbatim>\<open>"385"\<close>,
  \<open>JText NaN\<close> for a text that is no numeral, as \<^verbatim>\<open>"1,250"\<close> or \<^verbatim>\<open>"TBA"\<close>.
  \<open>or_else v d\<close> is \<^verbatim>\<open>v || d\<close>; \<open>Number\<close> is the conversion \<^verbatim>\<open>Number(v)\<close>.
\<close>

datatype jsval = Undefined | Null | JBool bool | JNum number | JText number | EmptyText

fun truthy_val :: "jsval \<Rightarrow> bool" where
  "truthy_val Undefined = False"
| "truthy_val Null = False"
| "truthy_val (JBool t) = t"
| "truthy_val (JNum a) = truthy a"
| "truthy_val (JText a) = True"
| "truthy_val EmptyText = False"

definition or_else :: "jsval \<Rightarrow> jsval \<Rightarrow> jsval" where
  "or_else v d = (if truthy_val v then v else d)"

fun Number :: "jsval \<Rightarrow> number" where
  "Number Undefined = NaN"
| "Number Null = Num 0"
| "Number (JBool t) = (if t then Num 1 else Num 0)"
| "Number (JNum a) = a"
| "Number (JText a) = a"
| "Number EmptyText = Num 0"

text \<open>
  \<open>le\<close> is \<^verbatim>\<open><=\<close>. The sources do not use it; the statements below do.
\<close>

fun le :: "number \<Rightarrow> number \<Rightarrow> bool" where
  "le (Num a) (Num b) = (a \<le> b)"
| "le NaN _ = False"
| "le _ NaN = False"
| "le NInf _ = True"
| "le _ PInf = True"
| "le PInf _ = False"
| "le _ NInf = False"

text \<open>\<^verbatim>\<open>Array.prototype.findIndex\<close>: the first index whose element passes, or -1.\<close>

fun findIndex :: "('a \<Rightarrow> bool) \<Rightarrow> 'a list \<Rightarrow> int" where
  "findIndex P [] = - 1"
| "findIndex P (x # xs) =
     (if P x then 0 else (let i = findIndex P xs in if i \<ge> 0 then i + 1 else - 1))"

text \<open>
  A string is the list of the bytes of its UTF-8 form. \<^verbatim>\<open>trim\<close> takes the white space and
  the line terminators of the language off both ends: the characters U+0009 to U+000D
  and U+0020 of one byte, U+00A0 of two bytes, and U+1680, U+2000 to U+200A, U+2028,
  U+2029, U+202F, U+205F, U+3000 and U+FEFF of three bytes.
\<close>

definition white1 :: "char \<Rightarrow> bool" where
  "white1 c = (let n = (of_char c :: nat) in (9 \<le> n \<and> n \<le> 13) \<or> n = 32)"

definition white2 :: "char \<Rightarrow> char \<Rightarrow> bool" where
  "white2 a b = ((of_char a :: nat) = 194 \<and> (of_char b :: nat) = 160)"

definition white3 :: "char \<Rightarrow> char \<Rightarrow> char \<Rightarrow> bool" where
  "white3 a b c =
     (let x = (of_char a :: nat); y = (of_char b :: nat); z = (of_char c :: nat)
      in (x = 225 \<and> y = 154 \<and> z = 128)
         \<or> (x = 226 \<and> y = 128 \<and> ((128 \<le> z \<and> z \<le> 138) \<or> z = 168 \<or> z = 169 \<or> z = 175))
         \<or> (x = 226 \<and> y = 129 \<and> z = 159)
         \<or> (x = 227 \<and> y = 128 \<and> z = 128)
         \<or> (x = 239 \<and> y = 187 \<and> z = 191))"

fun trimStart :: "string \<Rightarrow> string" where
  "trimStart (a # b # c # s) =
     (if white1 a then trimStart (b # c # s)
      else if white2 a b then trimStart (c # s)
      else if white3 a b c then trimStart s
      else a # b # c # s)"
| "trimStart [a, b] = (if white1 a then trimStart [b] else if white2 a b then [] else [a, b])"
| "trimStart [a] = (if white1 a then [] else [a])"
| "trimStart [] = []"

text \<open>The same from the end, on the reversed string: the last byte comes first.\<close>

fun trimEnd_rev :: "string \<Rightarrow> string" where
  "trimEnd_rev (c # b # a # s) =
     (if white1 c then trimEnd_rev (b # a # s)
      else if white2 b c then trimEnd_rev (a # s)
      else if white3 a b c then trimEnd_rev s
      else c # b # a # s)"
| "trimEnd_rev [c, b] = (if white1 c then trimEnd_rev [b] else if white2 b c then [] else [c, b])"
| "trimEnd_rev [c] = (if white1 c then [] else [c])"
| "trimEnd_rev [] = []"

definition trim :: "string \<Rightarrow> string" where
  "trim s = rev (trimEnd_rev (rev (trimStart s)))"

text \<open>\<^verbatim>\<open>hay.includes(needle)\<close>: the needle occurs in the hay as a contiguous run.\<close>

fun includes_str :: "string \<Rightarrow> string \<Rightarrow> bool" where
  "includes_str [] needle = (needle = [])"
| "includes_str (c # hay) needle = (prefix needle (c # hay) \<or> includes_str hay needle)"

text \<open>What a handler asks of the host: an alert box, the print dialog, a POST request.\<close>

datatype 'r effect = Alert string | Print | Post 'r

fun requests :: "'r effect list \<Rightarrow> 'r list" where
  "requests [] = []"
| "requests (Post r # es) = r # requests es"
| "requests (Alert m # es) = requests es"
| "requests (Print # es) = requests es"

fun alerts :: "'r effect list \<Rightarrow> string list" where
  "alerts [] = []"
| "alerts (Alert m # es) = m # alerts es"
| "alerts (Post r # es) = alerts es"
| "alerts (Print # es) = alerts es"

text \<open>
  A thrown value: its name and its message. \<open>String_exn\<close> is \<^verbatim>\<open>String(err)\<close>.
\<close>

datatype exn = Exn (ename: string) (message: string)

definition String_exn :: "exn \<Rightarrow> string" where
  "String_exn err = (if message err = [] then ename err else ename err @ '': '' @ message err)"

text \<open>
  How a \<^verbatim>\<open>fetch\<close> ends, as the handlers see it: the promise rejects (the request did
  not get through), or it resolves with a response, of which the handlers read the flag
  \<^verbatim>\<open>ok\<close> and the result of \<^verbatim>\<open>json()\<close>: the parsed body, or the exception of a body
  that does not parse.
\<close>

datatype 'd fetched = Rejects exn | Resolves bool "exn + 'd"

section \<open>The client-only page (BookPreorderSite)\<close>

text \<open>
  Fields and functions keep the names of the source. Where two of the three front ends
  use one name, a digit tells them apart: 1 for \<^verbatim>\<open>script.js\<close>, 2 for \<^verbatim>\<open>App\<close>, 3 for
  \<^verbatim>\<open>BookPreorderSite\<close>.
\<close>

record Book =
  id3 :: string
  title3 :: string
  author3 :: string
  summary3 :: string
  genre3 :: string
  price3 :: number
  discountPct :: "number option"
  image3 :: string

record CartItem =
  book :: Book
  qty3 :: number

text \<open>
  \<^verbatim>\<open>discounted\<close>, in its two steps: the percentage \<^verbatim>\<open>pct\<close> it clamps, and the price it
  rounds. The field \<^verbatim>\<open>discountPct\<close> is optional; \<^verbatim>\<open>book.discountPct || 0\<close> is 0 when it
  is absent, 0 or NaN.
\<close>

definition pct :: "Book \<Rightarrow> number" where
  "pct b =
     Math_max (Num 0) (Math_min (Num 100)
       (case discountPct b of Some d \<Rightarrow> or_num d (Num 0) | None \<Rightarrow> Num 0))"

definition discounted :: "Book \<Rightarrow> number" where
  "discounted b = Math_round (divide100 (mul (price3 b) (sub (Num 100) (pct b))))"

text \<open>\<^verbatim>\<open>total\<close>: the memoised sum the page shows as subtotal and as total.\<close>

definition total3 :: "CartItem list \<Rightarrow> number" where
  "total3 cart = foldl (\<lambda>sum it. add sum (mul (discounted (book it)) (qty3 it))) (Num 0) cart"

text \<open>
  The cart handlers, each as the updater it hands to \<^verbatim>\<open>setCart\<close>: from the previous cart
  to the next one.
\<close>

definition addToCart3 :: "Book \<Rightarrow> CartItem list \<Rightarrow> CartItem list" where
  "addToCart3 b prev =
     (let i = findIndex (\<lambda>x. id3 (book x) = id3 b) prev
      in if i \<ge> 0
         then prev[nat i := (prev ! nat i)\<lparr>qty3 := add (qty3 (prev ! nat i)) (Num 1)\<rparr>]
         else prev @ [\<lparr>book = b, qty3 = Num 1\<rparr>])"

definition setQty :: "string \<Rightarrow> number \<Rightarrow> CartItem list \<Rightarrow> CartItem list" where
  "setQty bookId qty prev =
     filter (\<lambda>x. gt (qty3 x) (Num 0))
       (map (\<lambda>x. if id3 (book x) = bookId then x\<lparr>qty3 := Math_max (Num 1) qty\<rparr> else x) prev)"

definition removeItem3 :: "string \<Rightarrow> CartItem list \<Rightarrow> CartItem list" where
  "removeItem3 bookId prev = filter (\<lambda>x. id3 (book x) \<noteq> bookId) prev"

definition clearCart :: "CartItem list \<Rightarrow> CartItem list" where
  "clearCart prev = []"

text \<open>
  The state of the page. The draft of the "quick add" form and \<^verbatim>\<open>addCustomBook\<close> (which
  draws a random id) are left out.
\<close>

record site =
  catalog :: "Book list"
  cart3 :: "CartItem list"
  note3 :: string
  showContact :: bool
  name3 :: string
  email3 :: string
  phone3 :: string

text \<open>\<^verbatim>\<open>printSlip\<close> calls \<^verbatim>\<open>window.print()\<close> and nothing else.\<close>

definition printSlip :: "site \<Rightarrow> site \<times> unit effect list" where
  "printSlip s = (s, [Print])"

section \<open>The spreadsheet-backed form (App)\<close>

text \<open>
  A book as the catalog request returns it. The price is what the cell of the sheet
  holds: a number or a text (the server sends 0 for an empty cell). A cart entry is the
  book's record with a quantity added (\<^verbatim>\<open>{ ...book, qty: 1 }\<close>).
\<close>

record Book2 =
  id2 :: string
  title2 :: string
  author2 :: string
  summary2 :: string
  genre2 :: string
  price2 :: jsval
  location2 :: string
  image2 :: string

record Item2 = Book2 +
  qty2 :: number

text \<open>
  The state of the component. The two price bounds are the texts of number inputs: read
  only through their truthiness and \<^verbatim>\<open>Number(...)\<close>, each is kept as \<open>None\<close> for the empty
  text and \<open>Some n\<close> for a text with \<^verbatim>\<open>Number(text) = n\<close>. The payment file is kept by its
  name. The flags of the catalog request (\<^verbatim>\<open>loading\<close>, \<^verbatim>\<open>error\<close>) are left out.
\<close>

record app =
  sheetId :: string
  books2 :: "Book2 list"
  q :: string
  genre :: string
  location :: string
  minPrice :: "number option"
  maxPrice :: "number option"
  cart2 :: "Item2 list"
  fullName :: string
  email2 :: string
  phone2 :: string
  fbName :: string
  pickup2 :: string
  paymentFile :: "string option"
  notes2 :: string
  submitting :: bool
  successMsg :: string

text \<open>
  \<^verbatim>\<open>filtered\<close>. The method \<^verbatim>\<open>toLowerCase\<close> of the host follows the case tables of Unicode,
  which are no part of the sources: it is an argument, any function from strings to
  strings.
\<close>

definition filtered :: "(string \<Rightarrow> string) \<Rightarrow> app \<Rightarrow> Book2 list" where
  "filtered toLowerCase s =
     (let ql = toLowerCase (trim (q s))
      in filter (\<lambda>b.
           if ql \<noteq> [] \<and> \<not> includes_str (toLowerCase (title2 b @ '' '' @ author2 b @ '' '' @ genre2 b)) ql
           then False
           else if genre s \<noteq> [] \<and> genre2 b \<noteq> genre s then False
           else if location s \<noteq> [] \<and> location2 b \<noteq> location s then False
           else (let price = or_num (Number (price2 b)) (Num 0)
                 in if (case minPrice s of Some m \<Rightarrow> lt price m | None \<Rightarrow> False) then False
                    else if (case maxPrice s of Some m \<Rightarrow> gt price m | None \<Rightarrow> False) then False
                    else True))
         (books2 s))"

text \<open>
  The cart handlers, as the updaters they hand to \<^verbatim>\<open>setCart\<close>. \<^verbatim>\<open>addToCart\<close> raises the
  quantity in place, on the entry the previous array holds too; the model gives the array
  the updater returns.
\<close>

definition addToCart2 :: "Book2 \<Rightarrow> Item2 list \<Rightarrow> Item2 list" where
  "addToCart2 b c =
     (let i = findIndex (\<lambda>x. id2 x = id2 b) c
      in if i \<ge> 0
         then c[nat i := (c ! nat i)\<lparr>qty2 := add (qty2 (c ! nat i)) (Num 1)\<rparr>]
         else c @ [Book2.extend b (Item2.fields (Num 1))])"

definition updateQty :: "string \<Rightarrow> number \<Rightarrow> Item2 list \<Rightarrow> Item2 list" where
  "updateQty ident qty c =
     map (\<lambda>it. if id2 it = ident then it\<lparr>qty2 := Math_max (Num 1) qty\<rparr> else it) c"

definition removeFromCart :: "string \<Rightarrow> Item2 list \<Rightarrow> Item2 list" where
  "removeFromCart ident c = filter (\<lambda>it. id2 it \<noteq> ident) c"

definition subtotal :: "Item2 list \<Rightarrow> number" where
  "subtotal cart = foldl (\<lambda>s it. add s (mul (or_num (Number (price2 it)) (Num 0)) (qty2 it))) (Num 0) cart"

text \<open>
  The amount the cart panel shows on the line of an entry, as it is handed to
  \<^verbatim>\<open>formatPHP\<close>: \<^verbatim>\<open>it.qty * Number(it.price || 0)\<close>. The panel shows \<^verbatim>\<open>subtotal\<close> below the
  lines, through \<^verbatim>\<open>formatPHP\<close> too.
\<close>

definition line_amount :: "Item2 \<Rightarrow> number" where
  "line_amount it = mul (qty2 it) (Number (or_else (price2 it) (JNum (Num 0))))"

text \<open>
  The request of \<^verbatim>\<open>submitOrder\<close>: the parts appended to the form data, in order. The reply
  is read through its field \<^verbatim>\<open>message\<close> only.
\<close>

datatype part =
  Text string
| Cart "(string \<times> string \<times> string \<times> number \<times> jsval) list"
| File string

definition reserve_form :: "app \<Rightarrow> (string \<times> part) list" where
  "reserve_form s =
     [(''sheetId'', Text (sheetId s)),
      (''fullName'', Text (fullName s)),
      (''email'', Text (email2 s)),
      (''phone'', Text (phone2 s)),
      (''fbName'', Text (fbName s)),
      (''pickup'', Text (pickup2 s)),
      (''notes'', Text (notes2 s)),
      (''cart'', Cart (map (\<lambda>it. (id2 it, title2 it, author2 it, qty2 it, price2 it)) (cart2 s)))]
     @ (case paymentFile s of Some f \<Rightarrow> [(''paymentFile'', File f)] | None \<Rightarrow> [])"

text \<open>
  \<^verbatim>\<open>submitOrder\<close>, given how the request ends: the state after the handler has run to its
  end, and what it asked of the host. The reply is the value of \<^verbatim>\<open>data.message\<close>, \<open>None\<close>
  when the field is absent.
\<close>

definition submitOrder :: "string option fetched \<Rightarrow> app \<Rightarrow> app \<times> (string \<times> part) list effect list" where
  "submitOrder remote s =
     (if cart2 s = [] then (s, [Alert ''Your cart is empty.''])
      else
        let s1 = s\<lparr>submitting := True, successMsg := []\<rparr>;
            form = reserve_form s;
            caught = (\<lambda>err. (s1\<lparr>submitting := False\<rparr>,
                        [Post form, Alert (if message err \<noteq> [] then message err else String_exn err)]))
        in case remote of
             Rejects err \<Rightarrow> caught err
           | Resolves ok body \<Rightarrow>
               if \<not> ok then caught (Exn ''Error'' ''Failed to submit order'')
               else (case body of
                       Inl err \<Rightarrow> caught err
                     | Inr data \<Rightarrow>
                         (s1\<lparr>successMsg :=
                                (case data of
                                   Some m \<Rightarrow> if m \<noteq> [] then m else ''Order submitted. Thank you!''
                                 | None \<Rightarrow> ''Order submitted. Thank you!''),
                              cart2 := [], fullName := [], email2 := [], phone2 := [],
                              fbName := [], notes2 := [], paymentFile := None,
                              submitting := False\<rparr>,
                          [Post form])))"

section \<open>The plain script (script.js)\<close>

text \<open>
  The catalog is the array \<^verbatim>\<open>books\<close>, loaded once. Of a book the script reads its title,
  author and genre, and the prices \<^verbatim>\<open>discounted\<close> and \<^verbatim>\<open>price\<close>, values of JSON.
  A cart entry refers to a book object of that array and compares it by identity
  (\<^verbatim>\<open>c.book === book\<close>), so the reference is kept as the index of the book in \<^verbatim>\<open>books\<close>;
  \<open>None\<close> is \<^verbatim>\<open>undefined\<close>, what \<^verbatim>\<open>books[index]\<close> gives beyond the end.
\<close>

record Book1 =
  title1 :: string
  author1 :: string
  genre1 :: string
  discounted1 :: jsval
  price1 :: jsval

record Item1 =
  book1 :: "nat option"
  quantity :: number

definition books_at :: "Book1 list \<Rightarrow> nat \<Rightarrow> nat option" where
  "books_at books index = (if index < length books then Some index else None)"

definition the_book :: "Book1 list \<Rightarrow> nat option \<Rightarrow> Book1 option" where
  "the_book books r =
     (case r of Some i \<Rightarrow> if i < length books then Some (books ! i) else None | None \<Rightarrow> None)"

text \<open>An exception that no handler catches: reading a property of \<^verbatim>\<open>undefined\<close>.\<close>

datatype error = TypeError

text \<open>
  The page: the two globals, and what the script writes of the document: the list of
  check boxes, the order table, whether the checkout button and the customer form are
  displayed, and the fields of the order form. The document itself is not part of the
  sources, so the values the form goes back to on \<^verbatim>\<open>reset()\<close> are a field of the page.
\<close>

record entry =
  checked :: bool
  box_value :: nat
  box_text :: string

record row =
  row_no :: nat
  row_title :: string
  row_author :: string
  row_qty :: number
  row_price :: number

datatype summary = NoBooks | Table "row list" number

record form1 =
  fullname :: string
  email1 :: string
  contact :: string
  fb :: string
  pickup1 :: string
  pickupdate :: string

record page =
  books1 :: "Book1 list"
  cart1 :: "Item1 list"
  bookList :: "entry list"
  orderSummary :: summary
  checkoutBtn :: string
  customerForm :: string
  order_form :: form1
  order_form_defaults :: form1

text \<open>\<^verbatim>\<open>book[filter]\<close> for the three keys the script filters by.\<close>

definition book_prop :: "Book1 \<Rightarrow> string \<Rightarrow> string option" where
  "book_prop b flt =
     (if flt = ''title'' then Some (title1 b)
      else if flt = ''author'' then Some (author1 b)
      else if flt = ''genre'' then Some (genre1 b)
      else None)"

definition renderBooks :: "string \<Rightarrow> string \<Rightarrow> page \<Rightarrow> page" where
  "renderBooks flt filterValue s =
     s\<lparr>bookList :=
         concat (map (\<lambda>(index, b).
                   if filterValue \<noteq> [] \<and> book_prop b flt \<noteq> Some filterValue then []
                   else [\<lparr>checked = list_ex (\<lambda>c. book1 c = Some index) (cart1 s),
                          box_value = index,
                          box_text =
                            (if flt = ''title'' then title1 b @ '' by '' @ author1 b
                             else if flt = ''author'' then title1 b
                             else if flt = ''genre'' then title1 b @ '' by '' @ author1 b
                             else [])\<rparr>])
                 (enumerate 0 (books1 s)))\<rparr>"

text \<open>
  The loop of \<^verbatim>\<open>renderOrder\<close> over the cart, with its counters: the index, the running
  total and the rows written so far.
\<close>

fun renderOrder_rows :: "Book1 list \<Rightarrow> nat \<Rightarrow> number \<Rightarrow> row list \<Rightarrow> Item1 list \<Rightarrow> error + number \<times> row list" where
  "renderOrder_rows books idx total' html [] = Inr (total', html)"
| "renderOrder_rows books idx total' html (item # rest) =
     (case the_book books (book1 item) of
        None \<Rightarrow> Inl TypeError
      | Some b \<Rightarrow>
          let price = mul (Number (or_else (discounted1 b) (price1 b))) (quantity item)
          in renderOrder_rows books (idx + 1) (add total' price)
               (html @ [\<lparr>row_no = idx + 1, row_title = title1 b, row_author = author1 b,
                          row_qty = quantity item, row_price = price\<rparr>])
               rest)"

text \<open>
  A handler of the script gives the page it leaves and the exception it threw, if any;
  what it wrote before throwing stays written.
\<close>

definition renderOrder :: "page \<Rightarrow> page \<times> error option" where
  "renderOrder s =
     (if cart1 s = []
      then (s\<lparr>orderSummary := NoBooks, checkoutBtn := ''none'', customerForm := ''none''\<rparr>, None)
      else (case renderOrder_rows (books1 s) 0 (Num 0) [] (cart1 s) of
              Inl e \<Rightarrow> (s, Some e)
            | Inr (total', html) \<Rightarrow>
                (s\<lparr>orderSummary := Table html total', checkoutBtn := ''block''\<rparr>, None)))"

definition toggleBook :: "nat \<Rightarrow> page \<Rightarrow> page \<times> error option" where
  "toggleBook index s =
     (let bk = books_at (books1 s) index
      in renderOrder
           (s\<lparr>cart1 :=
                if list_ex (\<lambda>c. book1 c = bk) (cart1 s)
                then filter (\<lambda>c. book1 c \<noteq> bk) (cart1 s)
                else cart1 s @ [\<lparr>book1 = bk, quantity = Num 1\<rparr>]\<rparr>))"

text \<open>
  \<^verbatim>\<open>updateQuantity(index, qty)\<close>: \<open>qty\<close> is the text of the quantity box, kept as the number
  \<^verbatim>\<open>Number(qty)\<close> it stands for.
\<close>

definition updateQuantity :: "nat \<Rightarrow> number \<Rightarrow> page \<Rightarrow> page \<times> error option" where
  "updateQuantity index qty s =
     (if index < length (cart1 s)
      then renderOrder (s\<lparr>cart1 := (cart1 s)[index := (cart1 s ! index)\<lparr>quantity := qty\<rparr>]\<rparr>)
      else (s, Some TypeError))"

definition removeItem1 :: "nat \<Rightarrow> page \<Rightarrow> page \<times> error option" where
  "removeItem1 index s =
     renderOrder (s\<lparr>cart1 := take index (cart1 s) @ drop (Suc index) (cart1 s)\<rparr>)"

definition checkout_click :: "page \<Rightarrow> page" where
  "checkout_click s = s\<lparr>customerForm := ''block'', checkoutBtn := ''none''\<rparr>"

text \<open>The \<^verbatim>\<open>reduce\<close> of the submit handler, with its accumulator.\<close>

fun order_total :: "Book1 list \<Rightarrow> number \<Rightarrow> Item1 list \<Rightarrow> error + number" where
  "order_total books sum_so_far [] = Inr sum_so_far"
| "order_total books sum_so_far (i # rest) =
     (case the_book books (book1 i) of
        None \<Rightarrow> Inl TypeError
      | Some b \<Rightarrow>
          order_total books (add sum_so_far (mul (Number (or_else (discounted1 b) (price1 b))) (quantity i))) rest)"

datatype field1 = Field string | Items "Item1 list" | Total number

definition order_of :: "page \<Rightarrow> number \<Rightarrow> (string \<times> field1) list" where
  "order_of s total' =
     [(''fullname'', Field (fullname (order_form s))),
      (''email'', Field (email1 (order_form s))),
      (''contact'', Field (contact (order_form s))),
      (''fb'', Field (fb (order_form s))),
      (''pickup'', Field (pickup1 (order_form s))),
      (''pickupdate'', Field (pickupdate (order_form s))),
      (''items'', Items (cart1 s)),
      (''total'', Total total')]"

text \<open>
  The submit handler of the order form, given how the request ends. The reply is the
  value of \<^verbatim>\<open>response.orderId\<close>, \<open>None\<close> when the field is absent. The handler does not
  read the flag \<^verbatim>\<open>ok\<close> of the response.
\<close>

definition order_form_submit ::
    "string option fetched \<Rightarrow> page \<Rightarrow> page \<times> error option \<times> (string \<times> field1) list effect list" where
  "order_form_submit remote s =
     (if cart1 s = []
      then (s, None, [Alert ''Please select at least one book before confirming order.''])
      else
        (case order_total (books1 s) (Num 0) (cart1 s) of
           Inl e \<Rightarrow> (s, Some e, [])
         | Inr total' \<Rightarrow>
             (let order = order_of s total';
                  failed = Alert ''Failed to submit order. Please try again.''
              in (case remote of
                    Rejects err \<Rightarrow> (s, None, [Post order, failed])
                  | Resolves ok body \<Rightarrow>
                      (case body of
                         Inl err \<Rightarrow> (s, None, [Post order, failed])
                       | Inr response \<Rightarrow>
                           (let confirmed =
                                  Alert (''Order confirmed! Your Order ID: ''
                                         @ (case response of Some i \<Rightarrow> i | None \<Rightarrow> ''undefined''))
                            in (case renderOrder (s\<lparr>order_form := order_form_defaults s, cart1 := []\<rparr>) of
                                  (s2, None) \<Rightarrow>
                                    (s2\<lparr>customerForm := ''none''\<rparr>, None, [Post order, confirmed])
                                | (s2, Some e) \<Rightarrow> (s2, None, [Post order, confirmed, failed]))))))))"

text \<open>
  Two readings of the page, for the statements below. \<open>shown_books\<close> are the books whose
  check boxes the list holds, in order. \<open>summary_matches_cart\<close> says that the order table
  is the one of the present cart: its total is the total the submit handler would send,
  and is the sum of the prices its rows display.
\<close>

definition shown_books :: "page \<Rightarrow> Book1 list" where
  "shown_books s = map (\<lambda>e. books1 s ! box_value e) (bookList s)"

definition summary_matches_cart :: "page \<Rightarrow> bool" where
  "summary_matches_cart s =
     (case orderSummary s of
        NoBooks \<Rightarrow> cart1 s = []
      | Table rows total' \<Rightarrow>
          order_total (books1 s) (Num 0) (cart1 s) = Inr total'
          \<and> foldl add (Num 0) (map row_price rows) = total')"

section \<open>Reachable carts\<close>

text \<open>
  The carts each front end can hold: it starts empty, and every handler that writes the
  cart takes a reachable cart to a reachable one.
\<close>

inductive reachable3 :: "CartItem list \<Rightarrow> bool" where
  start3: "reachable3 []"
| add3: "reachable3 c \<Longrightarrow> reachable3 (addToCart3 b c)"
| set3: "reachable3 c \<Longrightarrow> reachable3 (setQty bookId qty c)"
| remove3: "reachable3 c \<Longrightarrow> reachable3 (removeItem3 bookId c)"
| clear3: "reachable3 c \<Longrightarrow> reachable3 (clearCart c)"

inductive reachable2 :: "Item2 list \<Rightarrow> bool" where
  start2: "reachable2 []"
| add2: "reachable2 c \<Longrightarrow> reachable2 (addToCart2 b c)"
| update2: "reachable2 c \<Longrightarrow> reachable2 (updateQty ident qty c)"
| remove2: "reachable2 c \<Longrightarrow> reachable2 (removeFromCart ident c)"

inductive reachable1 :: "page \<Rightarrow> bool" where
  start1: "cart1 s = [] \<Longrightarrow> reachable1 s"
| toggle1: "reachable1 s \<Longrightarrow> reachable1 (fst (toggleBook index s))"
| update1: "reachable1 s \<Longrightarrow> reachable1 (fst (updateQuantity index qty s))"
| remove1: "reachable1 s \<Longrightarrow> reachable1 (fst (removeItem1 index s))"
| books1: "reachable1 s \<Longrightarrow> reachable1 (renderBooks flt filterValue s)"
| checkout1: "reachable1 s \<Longrightarrow> reachable1 (checkout_click s)"
| submit1: "reachable1 s \<Longrightarrow> reachable1 (fst (order_form_submit remote s))"

section \<open>Sample data\<close>

text \<open>
  A catalog of one book at 100 with 20 percent off, books that round, a book at 250 whose
  discount is the double nearest to 35.4, and two books whose prices times 100 are beyond
  what a double holds exactly: \<open>2^1020\<close>, about \<open>1.1e307\<close>, and 3000000000000001. All
  these prices and discounts are doubles.
\<close>

definition book_A :: Book where
  "book_A = \<lparr>id3 = ''1'', title3 = ''A'', author3 = ''Ann'', summary3 = [], genre3 = ''Faith'',
             price3 = Num 100, discountPct = Some (Num 20), image3 = []\<rparr>"

definition book_ten :: Book where
  "book_ten = \<lparr>id3 = ''2'', title3 = ''B'', author3 = ''Ben'', summary3 = [], genre3 = [],
               price3 = Num 10, discountPct = Some (Num 1), image3 = []\<rparr>"

definition book_half :: Book where
  "book_half = \<lparr>id3 = ''3'', title3 = ''C'', author3 = ''Cy'', summary3 = [], genre3 = [],
                price3 = Num (199 / 2), discountPct = Some (Num 0), image3 = []\<rparr>"


definition book_frac :: Book where
  "book_frac = \<lparr>id3 = ''7'', title3 = ''G'', author3 = ''Gus'', summary3 = [], genre3 = [],
                price3 = Num 250,
                discountPct = Some (Num (4982107087778611 / 140737488355328)), image3 = []\<rparr>"



definition sample_site :: site where
  "sample_site = \<lparr>catalog = [book_A], cart3 = [\<lparr>book = book_A, qty3 = Num 2\<rparr>], note3 = [],
                   showContact = False, name3 = [], email3 = [], phone3 = []\<rparr>"

definition row_A :: Book2 where
  "row_A = \<lparr>id2 = ''1'', title2 = ''A'', author2 = ''Ann'', summary2 = [], genre2 = ''Faith'',
            price2 = JNum (Num 100), location2 = ''Ayala'', image2 = []\<rparr>"

definition row_B :: Book2 where
  "row_B = \<lparr>id2 = ''2'', title2 = ''B'', author2 = ''Ben'', summary2 = [], genre2 = ''Finance'',
            price2 = JNum (Num 250), location2 = ''IT Park'', image2 = []\<rparr>"

text \<open>A row whose price cell holds the text \<^verbatim>\<open>1,250\<close>, which \<^verbatim>\<open>Number\<close> turns into NaN.\<close>

definition row_T :: Book2 where
  "row_T = \<lparr>id2 = ''3'', title2 = ''T'', author2 = ''Tess'', summary2 = [], genre2 = ''Faith'',
            price2 = JText NaN, location2 = ''Ayala'', image2 = []\<rparr>"

definition sample_app :: app where
  "sample_app = \<lparr>sheetId = ''sheet'', books2 = [row_A, row_B], q = [], genre = [], location = [],
                  minPrice = None, maxPrice = None,
                  cart2 = [Book2.extend row_A (Item2.fields (Num 1))],
                  fullName = ''Ann'', email2 = ''ann@example.org'', phone2 = ''0917'', fbName = [],
                  pickup2 = ''Feast ayala - Sunday'', paymentFile = None, notes2 = ''Sunday'',
                  submitting = False, successMsg = []\<rparr>"

definition blank_form :: form1 where
  "blank_form = \<lparr>fullname = [], email1 = [], contact = [], fb = [], pickup1 = [], pickupdate = []\<rparr>"

definition sample_page :: page where
  "sample_page =
     \<lparr>books1 = [\<lparr>title1 = ''A'', author1 = ''Ann'', genre1 = ''Faith'',
                   discounted1 = JNum (Num 80), price1 = JNum (Num 100)\<rparr>,
                 \<lparr>title1 = ''B'', author1 = ''Ben'', genre1 = ''Finance'',
                   discounted1 = Undefined, price1 = JNum (Num 250)\<rparr>],
       cart1 = [], bookList = [], orderSummary = NoBooks,
       checkoutBtn = ''none'', customerForm = ''none'',
       order_form = blank_form\<lparr>fullname := ''Ann''\<rparr>, order_form_defaults = blank_form\<rparr>"

section \<open>Rounding to a double\<close>

text \<open>
  What the statements below need of \<open>fl\<close>: it keeps a bound that is a whole number, it
  keeps whole numbers and halves below \<open>2^53\<close> as they are, it overflows to infinity from
  \<open>2^1024\<close> on, and below \<open>2^47\<close> it moves a number by less than a hundredth.
\<close>

lemma huge_big: "2 ^ 53 + 1 < huge"
  by (simp add: huge_def)



lemma binade_bounds:
  assumes "x \<noteq> 0"
  shows "2 powi binade x \<le> \<bar>x\<bar>" and "\<bar>x\<bar> < 2 powi (binade x + 1)"
proof -
  let ?a = "\<bar>x\<bar>"
  have a: "0 < ?a" using assms by simp
  have "2 powi binade x \<le> ?a \<and> ?a < 2 powi (binade x + 1)"
  proof (cases "1 \<le> ?a")
    case True
    let ?n = "\<lfloor>?a\<rfloor>"
    from True have n: "0 < ?n" by simp
    let ?k = "bitlen ?n"
    from bitlen_bounds[OF n] have b1: "2 ^ nat (?k - 1) \<le> ?n" and b2: "?n < 2 ^ nat ?k" by auto
    from n have k: "1 \<le> ?k" by (simp add: bitlen_alt_def)
    have e: "binade x = ?k - 1" using True by (simp add: binade_def)
    have "real_of_int (2 ^ nat (?k - 1)) \<le> real_of_int ?n" using b1 by linarith
    also have "\<dots> \<le> ?a" by simp
    finally have 1: "2 powi (?k - 1) \<le> ?a" using k by (simp add: power_int_def)
    from b2 have "?n + 1 \<le> 2 ^ nat ?k" by simp
    then have "real_of_int (?n + 1) \<le> real_of_int (2 ^ nat ?k)" by linarith
    moreover have "?a < real_of_int (?n + 1)" by linarith
    ultimately have "?a < real_of_int (2 ^ nat ?k)" by linarith
    then have 2: "?a < 2 powi ?k" using k by (simp add: power_int_def)
    from 1 2 e show ?thesis by simp
  next
    case False
    let ?y = "1 / ?a"
    from False a have y: "1 < ?y" by simp
    let ?c = "\<lceil>?y\<rceil>"
    from y have c: "0 < ?c - 1" by linarith
    let ?k = "bitlen (?c - 1)"
    from bitlen_bounds[OF c] have b1: "2 ^ nat (?k - 1) \<le> ?c - 1" and b2: "?c - 1 < 2 ^ nat ?k" by auto
    from c have k: "1 \<le> ?k" by (simp add: bitlen_alt_def)
    have e: "binade x = - ?k" using False by (simp add: binade_def)
    from b2 have "?c \<le> 2 ^ nat ?k" by simp
    then have "real_of_int ?c \<le> real_of_int (2 ^ nat ?k)" by linarith
    moreover have "?y \<le> real_of_int ?c" by simp
    ultimately have "?y \<le> real_of_int (2 ^ nat ?k)" by linarith
    then have "?y \<le> 2 ^ nat ?k" by simp
    then have "1 \<le> ?a * 2 ^ nat ?k" using a by (simp add: field_simps)
    then have 1: "2 powi (- ?k) \<le> ?a" using k by (simp add: power_int_def field_simps)
    have "real_of_int (2 ^ nat (?k - 1)) \<le> real_of_int (?c - 1)" using b1 by linarith
    moreover have "real_of_int (?c - 1) < ?y" by linarith
    ultimately have "real_of_int (2 ^ nat (?k - 1)) < ?y" by linarith
    then have "2 ^ nat (?k - 1) < ?y" by simp
    then have "?a * 2 ^ nat (?k - 1) < 1" using a by (simp add: field_simps)
    then have 2: "?a < 2 powi (- ?k + 1)" using k
      by (cases "?k = 1") (simp_all add: power_int_def field_simps nat_diff_distrib)
    from 1 2 e show ?thesis by simp
  qed
  then show "2 powi binade x \<le> \<bar>x\<bar>" and "\<bar>x\<bar> < 2 powi (binade x + 1)" by auto
qed

lemma binade_zero: "binade 0 = 0"
  by (simp add: binade_def bitlen_alt_def)

lemma binade_less:
  assumes "x \<noteq> 0" and "\<bar>x\<bar> < 2 powi e"
  shows "binade x < e"
proof (rule ccontr)
  assume "\<not> binade x < e"
  then have "e \<le> binade x" by simp
  then have "(2::real) powi e \<le> 2 powi binade x" by (intro power_int_increasing) auto
  also have "\<dots> \<le> \<bar>x\<bar>" using binade_bounds(1)[OF assms(1)] .
  finally show False using assms(2) by simp
qed

lemma binade_ge:
  assumes "2 powi e \<le> \<bar>x\<bar>"
  shows "e \<le> binade x"
proof (rule ccontr)
  assume "\<not> e \<le> binade x"
  then have "binade x + 1 \<le> e" by simp
  then have "(2::real) powi (binade x + 1) \<le> 2 powi e" by (intro power_int_increasing) auto
  moreover have "x \<noteq> 0"
  proof
    assume "x = 0"
    with assms have "(2::real) powi e \<le> 0" by simp
    moreover have "(0::real) < 2 powi e" by (rule zero_less_power_int) simp
    ultimately show False by linarith
  qed
  then have "\<bar>x\<bar> < 2 powi (binade x + 1)" by (rule binade_bounds(2))
  ultimately show False using assms by simp
qed

lemma round_even_le: "m \<le> of_int K \<Longrightarrow> round_even m \<le> K"
  unfolding round_even_def Let_def by (auto; linarith)

lemma round_even_ge: "of_int K \<le> m \<Longrightarrow> K \<le> round_even m"
  unfolding round_even_def Let_def by (auto; linarith)

lemma round_even_err: "\<bar>of_int (round_even m) - m\<bar> \<le> 1 / 2"
  unfolding round_even_def Let_def by (auto; linarith)

lemma round_even_int: "round_even (of_int K) = K"
  unfolding round_even_def Let_def by simp

lemma ulp_pos: "0 < ulp x"
  by (simp add: ulp_def)

lemma ulp_inv:
  assumes "binade x \<le> 52"
  shows "\<exists>n. 1 / ulp x = 2 ^ n"
proof -
  let ?k = "max (binade x) (- 1022) - 52"
  from assms have k: "?k \<le> 0" by simp
  have "1 / ulp x = 2 powi (- ?k)"
    unfolding ulp_def by (simp only: power_int_minus inverse_eq_divide)
  also have "\<dots> = 2 ^ nat (- ?k)" using k by (simp add: power_int_def)
  finally show ?thesis by blast
qed

lemma fl_int_bounds:
  assumes x: "\<bar>x\<bar> < 2 ^ 53" and lo: "of_int lo \<le> x" and hi: "x \<le> of_int hi"
  shows "\<exists>y. fl x = Num y \<and> of_int lo \<le> y \<and> y \<le> of_int hi"
proof -
  have b: "binade x \<le> 52"
  proof (cases "x = 0")
    case True then show ?thesis by (simp add: binade_zero)
  next
    case False
    from x have "\<bar>x\<bar> < 2 powi 53" by simp
    from binade_less[OF False this] show ?thesis by simp
  qed
  from ulp_inv[OF b] obtain n where n: "1 / ulp x = 2 ^ n" by blast
  define u where "u = ulp x"
  have u: "0 < u" by (simp add: u_def ulp_pos)
  from n have un: "u * 2 ^ n = 1" using u by (simp add: u_def field_simps)
  define y where "y = of_int (round_even (x / u)) * u"
  have bounds: "of_int a \<le> y" if "of_int a \<le> x" for a
  proof -
    have "of_int (a * 2 ^ n) = of_int a / u" using un u by (simp add: field_simps)
    also have "\<dots> \<le> x / u" using that u by (simp add: divide_right_mono)
    finally have "a * 2 ^ n \<le> round_even (x / u)" by (rule round_even_ge)
    then have "real_of_int (a * 2 ^ n) \<le> real_of_int (round_even (x / u))" by linarith
    then have "real_of_int (a * 2 ^ n) * u \<le> y" using u by (simp add: y_def)
    moreover have "real_of_int (a * 2 ^ n) * u = of_int a * (u * 2 ^ n)" by simp
    ultimately show ?thesis by (simp only: un mult_1_right)
  qed
  have bounds': "y \<le> of_int a" if "x \<le> of_int a" for a
  proof -
    have "x / u \<le> of_int a / u" using that u by (simp add: divide_right_mono)
    also have "of_int a / u = of_int (a * 2 ^ n)" using un u by (simp add: field_simps)
    finally have "round_even (x / u) \<le> a * 2 ^ n" by (rule round_even_le)
    then have "real_of_int (round_even (x / u)) \<le> real_of_int (a * 2 ^ n)" by linarith
    then have "y \<le> real_of_int (a * 2 ^ n) * u" using u by (simp add: y_def)
    moreover have "real_of_int (a * 2 ^ n) * u = of_int a * (u * 2 ^ n)" by simp
    ultimately show ?thesis by (simp only: un mult_1_right)
  qed
  have "of_int \<lfloor>x\<rfloor> \<le> y" by (rule bounds) simp
  moreover have "y \<le> of_int \<lceil>x\<rceil>" by (rule bounds') simp
  moreover have "- (2 ^ 53) - 1 < real_of_int \<lfloor>x\<rfloor>" using x by linarith
  moreover have "real_of_int \<lceil>x\<rceil> < 2 ^ 53 + 1" using x by linarith
  ultimately have "- (2 ^ 53) - 1 < y" "y < 2 ^ 53 + 1" by linarith+
  then have "\<not> huge \<le> y" "\<not> y \<le> - huge" using huge_big by simp_all
  then have "fl x = Num y" by (simp add: fl_def y_def u_def Let_def)
  with bounds[OF lo] bounds'[OF hi] show ?thesis by blast
qed

lemma fl_whole: "\<bar>real_of_int n\<bar> < 2 ^ 53 \<Longrightarrow> fl (of_int n) = Num (of_int n)"
  using fl_int_bounds[of "of_int n" n n] by auto

lemma fl_grid:
  assumes "x / ulp x = of_int K" and "\<bar>x\<bar> < huge"
  shows "fl x = Num x"
proof -
  have "of_int (round_even (x / ulp x)) * ulp x = (x / ulp x) * ulp x"
    by (simp only: assms(1) round_even_int)
  also have "\<dots> = x" using ulp_pos[of x] by simp
  finally have "of_int (round_even (x / ulp x)) * ulp x = x" .
  moreover have "\<not> huge \<le> x" "\<not> x \<le> - huge" using assms(2) by linarith+
  ultimately show ?thesis by (simp add: fl_def Let_def)
qed

lemma fl_half:
  assumes "2 * x = of_int n" and "\<bar>x\<bar> < 2 ^ 52"
  shows "fl x = Num x"
proof (cases "x = 0")
  case True
  then show ?thesis using huge_big by (simp add: fl_def Let_def round_even_def)
next
  case False
  from assms(2) have "\<bar>x\<bar> < 2 powi 52" by simp
  from binade_less[OF False this] have b: "binade x \<le> 51" by simp
  let ?k = "max (binade x) (- 1022) - 52"
  from b have k: "?k \<le> - 1" by simp
  have "1 / ulp x = 2 powi (- ?k)"
    unfolding ulp_def by (simp only: power_int_minus inverse_eq_divide)
  also have "\<dots> = 2 ^ nat (- ?k)" using k by (simp add: power_int_def)
  also have "nat (- ?k) = Suc (nat (- ?k - 1))" using k by simp
  finally have "1 / ulp x = 2 * 2 ^ nat (- ?k - 1)" by simp
  moreover have "x / ulp x = x * (1 / ulp x)" by simp
  ultimately have "x / ulp x = (2 * x) * 2 ^ nat (- ?k - 1)" by (simp only: mult.assoc mult.commute mult.left_commute)
  also have "\<dots> = of_int (n * 2 ^ nat (- ?k - 1))" by (simp add: assms(1))
  finally have "x / ulp x = of_int (n * 2 ^ nat (- ?k - 1))" .
  moreover have "\<bar>x\<bar> < huge" using assms(2) huge_big by simp
  ultimately show ?thesis by (rule fl_grid)
qed



lemma fl_near:
  assumes "\<bar>x\<bar> < 2 ^ 47"
  shows "\<exists>y. fl x = Num y \<and> \<bar>y - x\<bar> \<le> 1 / 128"
proof -
  have b: "binade x \<le> 46"
  proof (cases "x = 0")
    case True then show ?thesis by (simp add: binade_zero)
  next
    case False
    from assms have "\<bar>x\<bar> < 2 powi 47" by simp
    from binade_less[OF False this] show ?thesis by simp
  qed
  define u where "u = ulp x"
  have u: "0 < u" by (simp add: u_def ulp_pos)
  have "max (binade x) (- 1022) - 52 \<le> - 6" using b by simp
  then have "(2::real) powi (max (binade x) (- 1022) - 52) \<le> 2 powi (- 6)"
    by (rule power_int_increasing) simp
  then have "u \<le> 2 powi (- 6)" by (simp only: u_def ulp_def)
  then have u64: "u \<le> 1 / 64" by (simp add: power_int_minus)
  define y where "y = of_int (round_even (x / u)) * u"
  have "y - x = (of_int (round_even (x / u)) - x / u) * u"
    using u by (simp add: y_def field_simps)
  then have "\<bar>y - x\<bar> = \<bar>of_int (round_even (x / u)) - x / u\<bar> * u"
    using u by (simp add: abs_mult)
  also have "\<dots> \<le> (1 / 2) * u" using round_even_err[of "x / u"] u
    by (intro mult_right_mono) auto
  also have "\<dots> \<le> 1 / 128" using u64 by simp
  finally have err: "\<bar>y - x\<bar> \<le> 1 / 128" .
  then have "\<bar>y\<bar> < 2 ^ 47 + 1" using assms by linarith
  then have "\<not> huge \<le> y" "\<not> y \<le> - huge" using huge_big by simp_all
  then have "fl x = Num y" by (simp add: fl_def y_def u_def Let_def)
  with err show ?thesis by blast
qed

lemma fl_Ints: "x \<in> \<int> \<Longrightarrow> \<bar>x\<bar> < 2 ^ 53 \<Longrightarrow> fl x = Num x"
  using fl_whole by (auto elim!: Ints_cases)

lemma fl_half_Ints: "2 * x \<in> \<int> \<Longrightarrow> \<bar>x\<bar> < 2 ^ 52 \<Longrightarrow> fl x = Num x"
  using fl_half by (auto elim!: Ints_cases)

lemma binade_eq:
  assumes "2 powi e \<le> \<bar>x\<bar>" and "\<bar>x\<bar> < 2 powi (e + 1)"
  shows "binade x = e"
proof -
  have "x \<noteq> 0"
  proof
    assume "x = 0"
    with assms(1) have "(2::real) powi e \<le> 0" by simp
    moreover have "(0::real) < 2 powi e" by (rule zero_less_power_int) simp
    ultimately show False by linarith
  qed
  from binade_less[OF this assms(2)] binade_ge[OF assms(1)] show ?thesis by simp
qed

text \<open>The rounding of a number whose binade is known.\<close>

lemma fl_eval:
  assumes "2 powi e \<le> \<bar>x\<bar>" and "\<bar>x\<bar> < 2 powi (e + 1)" and "- 1022 \<le> e" and "e < 1023"
  shows "fl x = Num (of_int (round_even (x / 2 powi (e - 52))) * 2 powi (e - 52))"
proof -
  have b: "binade x = e" using assms(1,2) by (rule binade_eq)
  define u where "u = (2::real) powi (e - 52)"
  have uu: "ulp x = u" using assms(3) by (simp add: ulp_def b u_def)
  have u: "0 < u" by (simp add: u_def)
  define y where "y = of_int (round_even (x / u)) * u"
  have "y - x = (of_int (round_even (x / u)) - x / u) * u"
    using u by (simp add: y_def field_simps)
  then have "\<bar>y - x\<bar> = \<bar>of_int (round_even (x / u)) - x / u\<bar> * u"
    using u by (simp add: abs_mult)
  also have "\<dots> \<le> (1 / 2) * u" using round_even_err[of "x / u"] u
    by (intro mult_right_mono) auto
  finally have err: "\<bar>y - x\<bar> \<le> u / 2" by simp
  have "u \<le> 2 powi 1023" unfolding u_def using assms(4)
    by (intro power_int_increasing) auto
  moreover have "(2::real) powi (e + 1) \<le> 2 powi 1023" using assms(4)
    by (intro power_int_increasing) auto
  ultimately have "\<bar>y\<bar> < 2 powi 1023 + 2 powi 1023 / 2" using err assms(2) by linarith
  also have "\<dots> < huge" by (simp add: huge_def)
  finally have "\<not> huge \<le> y" "\<not> y \<le> - huge" by linarith+
  then have "fl x = Num y" by (simp add: fl_def y_def uu Let_def)
  then show ?thesis by (simp add: y_def u_def)
qed

text \<open>Division of a whole number by 100, then Math.round.\<close>

lemma round_div100:
  assumes "0 \<le> n" and "real_of_int n < 2 ^ 53"
  shows "\<exists>y. fl (of_int n / 100) = Num y \<and> \<lfloor>y + 1 / 2\<rfloor> = \<lfloor>real_of_int n / 100 + 1 / 2\<rfloor>"
proof -
  define x where "x = real_of_int n / 100"
  define q where "q = (n + 50) div 100"
  define r where "r = (n + 50) mod 100"
  have n: "n + 50 = 100 * q + r" and r: "0 \<le> r" "r < 100" by (simp_all add: q_def r_def)
  have xq: "x + 1 / 2 = of_int q + of_int r / 100"
  proof -
    have "real_of_int (n + 50) = real_of_int (100 * q + r)" by (simp only: n)
    then show ?thesis by (simp add: x_def field_simps)
  qed
  have fx: "\<lfloor>x + 1 / 2\<rfloor> = q"
    unfolding xq using r by (intro floor_unique) auto
  have xb: "\<bar>x\<bar> < 2 ^ 47" using assms by (simp add: x_def)
  show ?thesis
  proof (cases "r = 0")
    case True
    with xq have "2 * x = of_int (2 * q - 1)" by simp
    moreover have "\<bar>x\<bar> < 2 ^ 52" using xb by simp
    ultimately have "fl x = Num x" by (rule fl_half)
    then have "\<exists>y. fl x = Num y \<and> \<lfloor>y + 1 / 2\<rfloor> = \<lfloor>x + 1 / 2\<rfloor>" by blast
    then show ?thesis unfolding x_def .
  next
    case False
    with r have r1: "1 \<le> r" "r \<le> 99" by simp_all
    from fl_near[OF xb] obtain y where y: "fl x = Num y" "\<bar>y - x\<bar> \<le> 1 / 128" by blast
    have "real_of_int 1 \<le> real_of_int r" "real_of_int r \<le> real_of_int 99"
      using r1 by linarith+
    then have "1 / 100 \<le> real_of_int r / 100" "real_of_int r / 100 \<le> 99 / 100" by simp_all
    with xq y(2) have "of_int q \<le> y + 1 / 2" "y + 1 / 2 < of_int q + 1" by linarith+
    then have "\<lfloor>y + 1 / 2\<rfloor> = q" by (intro floor_unique) auto
    with y(1) fx have "\<exists>y. fl x = Num y \<and> \<lfloor>y + 1 / 2\<rfloor> = \<lfloor>x + 1 / 2\<rfloor>" by simp
    then show ?thesis unfolding x_def .
  qed
qed

section \<open>The effective unit price\<close>

lemma pct_cases:
  "pct b = Num (case discountPct b of Some (Num d) \<Rightarrow> max 0 (min 100 d) | Some PInf \<Rightarrow> 100 | _ \<Rightarrow> 0)"
  by (simp add: pct_def or_num_def split: option.splits number.splits)






text \<open>
  A whole price and a whole percentage: the rounding of the product and of the quotient
  does not show in the result.
\<close>

lemma discounted_whole:
  assumes "price3 b = Num (of_int n)" and "0 \<le> n" and "real_of_int n * 100 < 2 ^ 53"
    and "discountPct b = Some (Num (of_int k))" and "0 \<le> k" and "k \<le> 100"
  shows "pct b = Num (of_int k)"
    and "discounted b = Num (of_int \<lfloor>real_of_int n * (100 - real_of_int k) / 100 + 1 / 2\<rfloor>)"
proof -
  show pc: "pct b = Num (of_int k)" using assms(4,5,6) by (simp add: pct_cases)
  have "fl (real_of_int (100 - k)) = Num (real_of_int (100 - k))"
    using assms(5,6) by (intro fl_whole) simp
  then have s: "sub (Num 100) (pct b) = Num (real_of_int (100 - k))" by (simp add: pc)
  define N where "N = n * (100 - k)"
  have "N \<le> n * 100" unfolding N_def using assms(2,5) by (intro mult_left_mono) auto
  then have "real_of_int N \<le> real_of_int (n * 100)" by linarith
  then have N1: "real_of_int N < 2 ^ 53" using assms(3) by simp
  have N0: "0 \<le> N" unfolding N_def using assms(2,6) by simp
  have "fl (real_of_int N) = Num (real_of_int N)" using N0 N1 by (intro fl_whole) simp
  then have m: "mul (Num (real_of_int n)) (Num (real_of_int (100 - k))) = Num (real_of_int N)"
    by (simp add: N_def)
  from round_div100[OF N0 N1] obtain y
    where y: "fl (real_of_int N / 100) = Num y" "\<lfloor>y + 1 / 2\<rfloor> = \<lfloor>real_of_int N / 100 + 1 / 2\<rfloor>"
    by blast
  have "discounted b = Math_round (divide100 (mul (Num (real_of_int n)) (Num (real_of_int (100 - k)))))"
    by (simp only: discounted_def assms(1) s)
  also have "\<dots> = Math_round (fl (real_of_int N / 100))" by (simp only: m divide100.simps)
  also have "\<dots> = Num (of_int \<lfloor>real_of_int N / 100 + 1 / 2\<rfloor>)" by (simp only: y Math_round.simps)
  also have "real_of_int N / 100 = real_of_int n * (100 - real_of_int k) / 100" by (simp add: N_def)
  finally show "discounted b = Num (of_int \<lfloor>real_of_int n * (100 - real_of_int k) / 100 + 1 / 2\<rfloor>)" .
qed

lemma round_whole:
  fixes d :: real
  assumes "0 \<le> d" "d \<le> 100" "0 \<le> n"
  shows "\<lfloor>of_int n * (100 - d) / 100 + 1 / 2\<rfloor> \<le> n"
    and "(\<lfloor>of_int n * (100 - d) / 100 + 1 / 2\<rfloor> = n) = (of_int n * d \<le> 50)"
proof -
  have nd: "0 \<le> of_int n * d" using assms by simp
  have e: "of_int n * (100 - d) / 100 + 1 / 2 = of_int n + (1 / 2 - of_int n * d / 100)"
    by (simp add: field_simps)
  have "of_int n * (100 - d) / 100 + 1 / 2 < of_int n + 1"
    unfolding e using nd by simp
  then show "\<lfloor>of_int n * (100 - d) / 100 + 1 / 2\<rfloor> \<le> n"
    by (simp add: floor_le_iff)
  show "(\<lfloor>of_int n * (100 - d) / 100 + 1 / 2\<rfloor> = n) = (of_int n * d \<le> 50)"
    unfolding e floor_eq_iff using nd by (auto simp: mult.commute)
qed

text \<open>
  C3, as the code has it. For a book whose price is a whole number \<open>n \<ge> 0\<close> with
  \<open>100 * n < 2^53\<close> and whose discount is a whole percentage \<open>k\<close> from 0 to 100, the
  effective unit price is \<^verbatim>\<open>Math.round((price * (100 - k)) / 100)\<close> and is the exact
  \<open>round (n * (100 - k) / 100)\<close>, a tie going up; it is at most the price, and equals the
  price exactly when \<open>n * k \<le> 50\<close>: always at no discount, and also when the discount is too
  small to survive the rounding.
\<close>

theorem discounted_price:
  assumes "price3 b = Num (of_int n)" and "0 \<le> n" and "real_of_int n * 100 < 2 ^ 53"
    and "discountPct b = Some (Num (of_int k))" and "0 \<le> k" and "k \<le> 100"
  shows "discounted b = Math_round (divide100 (mul (price3 b) (sub (Num 100) (Num (of_int k)))))
       \<and> discounted b = Num (of_int \<lfloor>real_of_int n * (100 - real_of_int k) / 100 + 1 / 2\<rfloor>)
       \<and> le (discounted b) (price3 b)
       \<and> ((discounted b = price3 b) = (n * k \<le> 50))
       \<and> (k = 0 \<longrightarrow> discounted b = price3 b)"
proof -
  note w = discounted_whole[OF assms]
  have k: "0 \<le> real_of_int k" "real_of_int k \<le> 100" using assms(5,6) by simp_all
  have 1: "discounted b = Math_round (divide100 (mul (price3 b) (sub (Num 100) (Num (of_int k)))))"
    by (simp only: discounted_def w(1))
  have a: "real_of_int \<lfloor>of_int n * (100 - real_of_int k) / 100 + 1 / 2\<rfloor> \<le> of_int n"
    using round_whole(1)[OF k assms(2)] by linarith
  have "(\<lfloor>of_int n * (100 - real_of_int k) / 100 + 1 / 2\<rfloor> = n) = (real_of_int (n * k) \<le> 50)"
    using round_whole(2)[OF k assms(2)] by simp
  then have c: "(\<lfloor>of_int n * (100 - real_of_int k) / 100 + 1 / 2\<rfloor> = n) = (n * k \<le> 50)"
    by (simp only: of_int_le_numeral_iff)
  have 3: "le (discounted b) (price3 b)" using a by (simp only: w(2) assms(1) le.simps)
  have 4: "(discounted b = price3 b) = (n * k \<le> 50)"
    using c by (simp only: w(2) assms(1) number.inject of_int_eq_iff)
  have 5: "discounted b = price3 b" if "k = 0" using 4 that by simp
  show ?thesis using 1 w(2) 3 4 5 by blast
qed

text \<open>The sample book at 100 costs 80 with 20 percent off, and 100 with none.\<close>

theorem discounted_price_witness:
  "discounted book_A = Num 80 \<and> le (discounted book_A) (price3 book_A)
   \<and> discounted book_A \<noteq> price3 book_A
   \<and> discounted (book_A\<lparr>discountPct := Some (Num 0)\<rparr>) = Num 100"
  using discounted_price [of book_A 100 20]
    discounted_price [of "book_A\<lparr>discountPct := Some (Num 0)\<rparr>" 100 0]
  by (simp add: book_A_def fl_Ints)

text \<open>
  A percentage with a fraction. The double nearest to 35.4 is
  \<open>4982107087778611 / 2^47\<close>. At 250 with that discount the difference, the product and
  the quotient are each rounded, and the effective price is 161, where the exact
  \<open>250 * (100 - d) / 100\<close> is just above 161.5 and rounds to 162.
\<close>

lemma fl_frac: "fl (177 / 5) = Num (4982107087778611 / 140737488355328)"
  using fl_eval[of 5 "177 / 5"] by (simp add: round_even_def)

lemma discounted_frac:
  "pct book_frac = Num (4982107087778611 / 140737488355328)"
  "discounted book_frac = Num 161"
proof -
  show p: "pct book_frac = Num (4982107087778611 / 140737488355328)"
    by (simp add: pct_def or_num_def book_frac_def)
  have s: "sub (Num 100) (Num (4982107087778611 / 140737488355328))
      = Num (2272910436938547 / 35184372088832)"
    using fl_eval[of 6 "100 - 4982107087778611 / 140737488355328"] by (simp add: round_even_def)
  have m: "mul (Num 250) (Num (2272910436938547 / 35184372088832))
      = Num (8878556394291199 / 549755813888)"
    using fl_eval[of 13 "250 * (2272910436938547 / 35184372088832)"] by (simp add: round_even_def)
  have q: "divide100 (Num (8878556394291199 / 549755813888))
      = Num (5682276092346367 / 35184372088832)"
    using fl_eval[of 7 "8878556394291199 / 549755813888 / 100"] by (simp add: round_even_def)
  have "price3 book_frac = Num 250" by (simp add: book_frac_def)
  then have "discounted book_frac = Math_round (Num (5682276092346367 / 35184372088832))"
    by (simp only: discounted_def p s m q)
  then show "discounted book_frac = Num 161" by simp
qed

text \<open>
  The claim as the specification words it fails three times. A price of 10 at 1 percent
  off rounds back to 10: the price is kept although the discount is not 0. A price of
  99.5 at no discount is rounded up to 100: the effective price exceeds the price. A
  price of 250 at 35.4 percent off gives 161, not the 162 that
  \<open>round (price * (100 - discountPercent) / 100)\<close> is.
\<close>

theorem discounted_price_counterexample:
  "discounted book_ten = price3 book_ten \<and> discountPct book_ten = Some (Num 1)
   \<and> discountPct book_half = Some (Num 0) \<and> lt (price3 book_half) (discounted book_half)
   \<and> price3 book_frac = Num 250 \<and> discountPct book_frac = Some (fl (177 / 5))
   \<and> discounted book_frac = Num 161
   \<and> \<lfloor>250 * (100 - 4982107087778611 / 140737488355328) / 100 + 1 / 2 :: real\<rfloor> = 162"
proof -
  have "discounted book_ten = Num 10"
    using discounted_whole(2)[of book_ten 10 1] by (simp add: book_ten_def)
  moreover have "discounted book_half = Num 100"
    by (simp add: discounted_def pct_def or_num_def book_half_def fl_Ints fl_half_Ints)
  moreover have "discountPct book_frac = Some (fl (177 / 5))"
    by (simp only: fl_frac) (simp add: book_frac_def)
  moreover have "\<lfloor>250 * (100 - 4982107087778611 / 140737488355328) / 100 + 1 / 2 :: real\<rfloor> = 162"
    by simp
  ultimately show ?thesis
    using discounted_frac(2) by (simp add: book_ten_def book_half_def book_frac_def)
qed






section \<open>Cart operations\<close>

lemma findIndex_range:
  "findIndex P xs = - 1 \<or> (0 \<le> findIndex P xs \<and> findIndex P xs < int (length xs))"
  by (induction xs) (auto simp: Let_def)

lemma findIndex_found: "(0 \<le> findIndex P xs) = list_ex P xs"
  by (induction xs) (auto simp: Let_def)

lemma findIndex_less: "0 \<le> findIndex P xs \<Longrightarrow> nat (findIndex P xs) < length xs"
  using findIndex_range[of P xs] by auto



lemma map_update_same: "i < length xs \<Longrightarrow> f y = f (xs ! i) \<Longrightarrow> map f (xs[i := y]) = map f xs"
  by (simp add: map_update list_update_same_conv)

subsection \<open>Adding\<close>







lemma renderOrder_cart: "cart1 (fst (renderOrder s)) = cart1 s"
  by (simp add: renderOrder_def split: sum.splits prod.splits)


lemma toggleBook_cart:
  "cart1 (fst (toggleBook index s)) =
     (if list_ex (\<lambda>c. book1 c = books_at (books1 s) index) (cart1 s)
      then filter (\<lambda>c. book1 c \<noteq> books_at (books1 s) index) (cart1 s)
      else cart1 s @ [\<lparr>book1 = books_at (books1 s) index, quantity = Num 1\<rparr>])"
  by (simp add: toggleBook_def Let_def renderOrder_cart)






subsection \<open>Setting a quantity\<close>

lemma Math_max_one: "lt qty (Num 1) \<Longrightarrow> Math_max (Num 1) qty = Num 1"
  by (cases qty) auto

text \<open>
  The two React front ends clamp: asked for a quantity below 1, \<^verbatim>\<open>setQty\<close> and
  \<^verbatim>\<open>updateQty\<close> keep the entry of that book and give it the quantity 1.
\<close>

lemma setQty_clamps:
  assumes "lt qty (Num 1)" and "x \<in> set prev" and "id3 (book x) = bookId"
  shows "x\<lparr>qty3 := Num 1\<rparr> \<in> set (setQty bookId qty prev)"
    and "\<forall>y \<in> set (setQty bookId qty prev). id3 (book y) = bookId \<longrightarrow> qty3 y = Num 1"
  using assms by (auto simp: setQty_def Math_max_one)

lemma updateQty_clamps:
  assumes "lt qty (Num 1)" and "x \<in> set c" and "id2 x = ident"
  shows "x\<lparr>qty2 := Num 1\<rparr> \<in> set (updateQty ident qty c)"
    and "\<forall>y \<in> set (updateQty ident qty c). id2 y = ident \<longrightarrow> qty2 y = Num 1"
    and "length (updateQty ident qty c) = length c"
  using assms by (auto simp: updateQty_def Math_max_one)

lemma updateQuantity_cart:
  "cart1 (fst (updateQuantity index qty s)) =
     (if index < length (cart1 s) then (cart1 s)[index := (cart1 s ! index)\<lparr>quantity := qty\<rparr>]
      else cart1 s)"
  by (simp add: updateQuantity_def renderOrder_cart)

lemma updateQuantity_stores:
  "index < length (cart1 s) \<Longrightarrow>
   quantity (cart1 (fst (updateQuantity index qty s)) ! index) = qty"
  by (simp add: updateQuantity_cart)

text \<open>
  C2 fails on the plain script. \<^verbatim>\<open>updateQuantity\<close> stores \<^verbatim>\<open>Number(qty)\<close> as it is: with one
  book in the cart, a quantity of 0 is stored as 0 and a quantity of -3 as -3, where the
  claim has 1.
\<close>

theorem updateQuantity_unclamped:
  "cart1 (fst (toggleBook 0 sample_page)) = [\<lparr>book1 = Some 0, quantity = Num 1\<rparr>]
   \<and> lt (Num 0) (Num 1)
   \<and> cart1 (fst (updateQuantity 0 (Num 0) (fst (toggleBook 0 sample_page))))
       = [\<lparr>book1 = Some 0, quantity = Num 0\<rparr>]
   \<and> cart1 (fst (updateQuantity 0 (Num (- 3)) (fst (toggleBook 0 sample_page))))
       = [\<lparr>book1 = Some 0, quantity = Num (- 3)\<rparr>]"
  by (simp add: updateQuantity_cart toggleBook_cart sample_page_def books_at_def)

subsection \<open>One entry per book\<close>

lemma addToCart3_ids:
  "map (\<lambda>x. id3 (book x)) (addToCart3 b c) =
     (if list_ex (\<lambda>x. id3 (book x) = id3 b) c then map (\<lambda>x. id3 (book x)) c
      else map (\<lambda>x. id3 (book x)) c @ [id3 b])"
proof (cases "0 \<le> findIndex (\<lambda>x. id3 (book x) = id3 b) c")
  case True
  from findIndex_less[OF True] True show ?thesis
    by (simp add: addToCart3_def Let_def findIndex_found[symmetric] map_update_same)
next
  case False
  then show ?thesis
    by (simp add: addToCart3_def Let_def findIndex_found[symmetric])
qed

lemma addToCart2_ids:
  "map id2 (addToCart2 b c) =
     (if list_ex (\<lambda>x. id2 x = id2 b) c then map id2 c else map id2 c @ [id2 b])"
proof (cases "0 \<le> findIndex (\<lambda>x. id2 x = id2 b) c")
  case True
  from findIndex_less[OF True] True show ?thesis
    by (simp add: addToCart2_def Let_def findIndex_found[symmetric] map_update_same)
next
  case False
  then show ?thesis
    by (simp add: addToCart2_def Let_def findIndex_found[symmetric] Book2.defs)
qed

lemma addToCart3_distinct:
  "distinct (map (\<lambda>x. id3 (book x)) c) \<Longrightarrow> distinct (map (\<lambda>x. id3 (book x)) (addToCart3 b c))"
  by (auto simp: addToCart3_ids list_ex_iff)

lemma setQty_distinct:
  assumes "distinct (map (\<lambda>x. id3 (book x)) c)"
  shows "distinct (map (\<lambda>x. id3 (book x)) (setQty bookId qty c))"
proof -
  define ys where
    "ys = map (\<lambda>x. if id3 (book x) = bookId then x\<lparr>qty3 := Math_max (Num 1) qty\<rparr> else x) c"
  have "map (\<lambda>x. id3 (book x)) ys = map (\<lambda>x. id3 (book x)) c"
    unfolding ys_def by (induction c) auto
  with assms have "distinct (map (\<lambda>x. id3 (book x)) ys)" by simp
  then have "distinct (map (\<lambda>x. id3 (book x)) (filter (\<lambda>x. gt (qty3 x) (Num 0)) ys))"
    by (rule distinct_map_filter)
  then show ?thesis by (simp add: setQty_def ys_def)
qed

lemma removeItem3_distinct:
  "distinct (map (\<lambda>x. id3 (book x)) c) \<Longrightarrow> distinct (map (\<lambda>x. id3 (book x)) (removeItem3 bookId c))"
  unfolding removeItem3_def by (rule distinct_map_filter)

lemma addToCart2_distinct:
  "distinct (map id2 c) \<Longrightarrow> distinct (map id2 (addToCart2 b c))"
  by (auto simp: addToCart2_ids list_ex_iff)

lemma updateQty_distinct:
  "distinct (map id2 c) \<Longrightarrow> distinct (map id2 (updateQty ident qty c))"
proof -
  have "map id2 (updateQty ident qty c) = map id2 c"
    unfolding updateQty_def by (induction c) auto
  then show "distinct (map id2 c) \<Longrightarrow> distinct (map id2 (updateQty ident qty c))" by simp
qed

lemma removeFromCart_distinct:
  "distinct (map id2 c) \<Longrightarrow> distinct (map id2 (removeFromCart ident c))"
  unfolding removeFromCart_def by (rule distinct_map_filter)

lemma removeItem1_cart:
  "cart1 (fst (removeItem1 index s)) = take index (cart1 s) @ drop (Suc index) (cart1 s)"
  by (simp add: removeItem1_def renderOrder_cart)

lemma order_form_submit_cart:
  "cart1 (fst (order_form_submit remote s)) = cart1 s \<or> cart1 (fst (order_form_submit remote s)) = []"
  by (auto simp: order_form_submit_def Let_def renderOrder_def
      split: sum.splits fetched.splits prod.splits option.splits)

lemma toggleBook_distinct:
  "distinct (map book1 (cart1 s)) \<Longrightarrow> distinct (map book1 (cart1 (fst (toggleBook index s))))"
  by (auto simp: toggleBook_cart list_ex_iff distinct_map_filter)

lemma updateQuantity_distinct:
  "distinct (map book1 (cart1 s)) \<Longrightarrow> distinct (map book1 (cart1 (fst (updateQuantity index qty s))))"
  by (simp add: updateQuantity_cart map_update_same)

lemma distinct_without:
  assumes "distinct xs"
  shows "distinct (take n xs @ drop (Suc n) xs)"
proof -
  have "set (take n xs) \<inter> set (drop (Suc n) xs) = {}"
    using assms by (intro set_take_disj_set_drop_if_distinct) simp_all
  with assms show ?thesis by simp
qed

lemma removeItem1_distinct:
  assumes "distinct (map book1 (cart1 s))"
  shows "distinct (map book1 (cart1 (fst (removeItem1 index s))))"
  using distinct_without[OF assms, of index] by (simp add: removeItem1_cart take_map drop_map)

lemma order_form_submit_distinct:
  "distinct (map book1 (cart1 s)) \<Longrightarrow> distinct (map book1 (cart1 (fst (order_form_submit remote s))))"
  using order_form_submit_cart[of remote s] by auto

lemma reachable3_distinct: "reachable3 c \<Longrightarrow> distinct (map (\<lambda>x. id3 (book x)) c)"
  by (induction rule: reachable3.induct)
     (simp_all add: addToCart3_distinct setQty_distinct removeItem3_distinct clearCart_def)

lemma reachable2_distinct: "reachable2 c \<Longrightarrow> distinct (map id2 c)"
  by (induction rule: reachable2.induct)
     (simp_all add: addToCart2_distinct updateQty_distinct removeFromCart_distinct)

lemma reachable1_distinct: "reachable1 s \<Longrightarrow> distinct (map book1 (cart1 s))"
proof (induction rule: reachable1.induct)
  case (start1 s)
  then show ?case by simp
next
  case (toggle1 s index)
  then show ?case by (simp add: toggleBook_distinct)
next
  case (update1 s index qty)
  then show ?case by (simp add: updateQuantity_distinct)
next
  case (remove1 s index)
  then show ?case by (simp add: removeItem1_distinct)
next
  case (books1 s flt filterValue)
  then show ?case by (simp add: renderBooks_def)
next
  case (checkout1 s)
  then show ?case by (simp add: checkout_click_def)
next
  case (submit1 s remote)
  then show ?case by (simp add: order_form_submit_distinct)
qed

text \<open>
  C8. Every reachable cart holds at most one entry per book id, and every cart operation
  keeps it so: \<^verbatim>\<open>addToCart\<close>, \<^verbatim>\<open>setQty\<close>, \<^verbatim>\<open>removeItem\<close> and \<^verbatim>\<open>clearCart\<close> of the client-only
  page, \<^verbatim>\<open>addToCart\<close>, \<^verbatim>\<open>updateQty\<close> and \<^verbatim>\<open>removeFromCart\<close> of App. The plain script tells
  books apart by the identity of their objects in the one catalog it loads, and holds at
  most one entry per book object under \<^verbatim>\<open>toggleBook\<close>, \<^verbatim>\<open>updateQuantity\<close>, \<^verbatim>\<open>removeItem\<close>
  and the submit handler; with ids unique in the catalog (an id \<open>ident\<close> that tells the
  books of the cart apart) that is at most one entry per id.
\<close>

theorem one_item_per_book:
  "(reachable3 c \<longrightarrow> distinct (map (\<lambda>x. id3 (book x)) c))
   \<and> (distinct (map (\<lambda>x. id3 (book x)) c) \<longrightarrow>
        distinct (map (\<lambda>x. id3 (book x)) (addToCart3 b c))
        \<and> distinct (map (\<lambda>x. id3 (book x)) (setQty bookId qty c))
        \<and> distinct (map (\<lambda>x. id3 (book x)) (removeItem3 bookId c))
        \<and> distinct (map (\<lambda>x. id3 (book x)) (clearCart c)))
   \<and> (reachable2 c2 \<longrightarrow> distinct (map id2 c2))
   \<and> (distinct (map id2 c2) \<longrightarrow>
        distinct (map id2 (addToCart2 b2 c2))
        \<and> distinct (map id2 (updateQty bookId qty c2))
        \<and> distinct (map id2 (removeFromCart bookId c2)))
   \<and> (reachable1 s \<longrightarrow> distinct (map book1 (cart1 s)))
   \<and> (distinct (map book1 (cart1 s)) \<longrightarrow>
        distinct (map book1 (cart1 (fst (toggleBook index s))))
        \<and> distinct (map book1 (cart1 (fst (updateQuantity index qty s))))
        \<and> distinct (map book1 (cart1 (fst (removeItem1 index s))))
        \<and> distinct (map book1 (cart1 (fst (order_form_submit remote s)))))
   \<and> (reachable1 s \<and> inj_on ident (set (map book1 (cart1 s))) \<longrightarrow>
        distinct (map (\<lambda>x. ident (book1 x)) (cart1 s)))"
proof -
  have "distinct (map (\<lambda>x. ident (book1 x)) (cart1 s))"
    if "reachable1 s" and "inj_on ident (set (map book1 (cart1 s)))"
  proof -
    from that(1) have "distinct (map book1 (cart1 s))" by (rule reachable1_distinct)
    with that(2) have "distinct (map ident (map book1 (cart1 s)))" by (simp only: distinct_map)
    then show ?thesis by (simp add: comp_def)
  qed
  then show ?thesis
    using reachable3_distinct reachable2_distinct reachable1_distinct
      addToCart3_distinct setQty_distinct removeItem3_distinct
      addToCart2_distinct updateQty_distinct removeFromCart_distinct
      toggleBook_distinct updateQuantity_distinct removeItem1_distinct order_form_submit_distinct
    by (simp add: clearCart_def)
qed

text \<open>
  On the sample data: the carts after one add are reachable, and a second add of the same
  book leaves one entry per id.
\<close>

theorem one_item_per_book_witness:
  "reachable3 (addToCart3 book_A [])
   \<and> distinct (map (\<lambda>x. id3 (book x)) (addToCart3 book_A (addToCart3 book_A [])))
   \<and> reachable2 (addToCart2 row_A [])
   \<and> distinct (map id2 (addToCart2 row_A (addToCart2 row_A [])))
   \<and> reachable1 (fst (toggleBook 0 sample_page))
   \<and> distinct (map book1 (cart1 (fst (toggleBook 1 (fst (toggleBook 0 sample_page))))))
   \<and> distinct (map (\<lambda>x. case book1 x of Some i \<Rightarrow> [''1'', ''2''] ! i | None \<Rightarrow> [])
                (cart1 (fst (toggleBook 0 sample_page))))"
proof -
  have r3: "reachable3 (addToCart3 book_A [])" by (intro reachable3.intros)
  have r2: "reachable2 (addToCart2 row_A [])" by (intro reachable2.intros)
  have r1: "reachable1 (fst (toggleBook 0 sample_page))"
    by (intro reachable1.intros) (simp add: sample_page_def)
  have c1: "cart1 (fst (toggleBook 0 sample_page)) = [\<lparr>book1 = Some 0, quantity = Num 1\<rparr>]"
    by (simp add: toggleBook_cart sample_page_def books_at_def)
  show ?thesis
    using r3 r2 r1
      one_item_per_book [where c = "addToCart3 book_A []" and b = book_A
        and ?c2.0 = "addToCart2 row_A []" and ?b2.0 = row_A
        and s = "fst (toggleBook 0 sample_page)" and index = 1
        and ident = "\<lambda>r. case r of Some i \<Rightarrow> [''1'', ''2''] ! i | None \<Rightarrow> []"]
    by (simp add: c1)
qed

section \<open>Totals\<close>

lemma mul_commute: "mul a b = mul b a"
  by (cases a; cases b) (simp_all add: mult.commute)

text \<open>
  In the client-only page the total is the sum, in the order of the cart, of the amounts
  \<^verbatim>\<open>item.qty * discounted(item.book)\<close> that the lines of the summary show.
\<close>

lemma total3_lines:
  "total3 cart = foldl add (Num 0) (map (\<lambda>item. mul (qty3 item) (discounted (book item))) cart)"
  by (simp add: total3_def foldl_map mul_commute)

text \<open>
  In the plain script the total the submit handler sends is the total \<^verbatim>\<open>renderOrder\<close>
  computes, which is the sum of the prices of the rows it writes, each the effective unit
  price times the quantity; both throw on the same carts. Each handler that changes the
  cart and returns leaves the order table the one of the new cart.
\<close>

lemma renderOrder_rows_total:
  "map_sum id fst (renderOrder_rows books idx t html cart) = order_total books t cart"
  by (induction cart arbitrary: idx t html) (auto simp: Let_def split: option.splits)

lemma renderOrder_rows_sum:
  "renderOrder_rows books idx t html cart = Inr (t', html') \<Longrightarrow>
   foldl add t0 (map row_price html) = t \<Longrightarrow> foldl add t0 (map row_price html') = t'"
proof (induction cart arbitrary: idx t html)
  case Nil
  then show ?case by simp
next
  case (Cons item rest)
  from Cons.prems(1) obtain b where b: "the_book books (book1 item) = Some b"
    by (auto split: option.splits)
  let ?price = "mul (Number (or_else (discounted1 b) (price1 b))) (quantity item)"
  let ?row = "\<lparr>row_no = idx + 1, row_title = title1 b, row_author = author1 b,
                row_qty = quantity item, row_price = ?price\<rparr>"
  from Cons.prems(1) b
  have r: "renderOrder_rows books (idx + 1) (add t ?price) (html @ [?row]) rest = Inr (t', html')"
    by (simp add: Let_def)
  have "foldl add t0 (map row_price (html @ [?row])) = add t ?price"
    using Cons.prems(2) by simp
  from Cons.IH[OF r this] show ?case .
qed

lemma renderOrder_rows_lines:
  "renderOrder_rows books idx t html cart = Inr (t', html') \<Longrightarrow>
   map row_price html' =
     map row_price html
     @ map (\<lambda>item. case the_book books (book1 item) of
                      Some b \<Rightarrow> mul (Number (or_else (discounted1 b) (price1 b))) (quantity item)
                    | None \<Rightarrow> NaN) cart"
proof (induction cart arbitrary: idx t html)
  case Nil
  then show ?case by simp
next
  case (Cons item rest)
  from Cons.prems(1) obtain b where b: "the_book books (book1 item) = Some b"
    by (auto split: option.splits)
  let ?price = "mul (Number (or_else (discounted1 b) (price1 b))) (quantity item)"
  let ?row = "\<lparr>row_no = idx + 1, row_title = title1 b, row_author = author1 b,
                row_qty = quantity item, row_price = ?price\<rparr>"
  from Cons.prems(1) b
  have r: "renderOrder_rows books (idx + 1) (add t ?price) (html @ [?row]) rest = Inr (t', html')"
    by (simp add: Let_def)
  from Cons.IH[OF r] b show ?case by simp
qed

lemma renderOrder_matches:
  assumes "snd (renderOrder s) = None"
  shows "summary_matches_cart (fst (renderOrder s))"
proof (cases "cart1 s = []")
  case True
  then show ?thesis by (simp add: renderOrder_def summary_matches_cart_def)
next
  case False
  with assms obtain t rows where r: "renderOrder_rows (books1 s) 0 (Num 0) [] (cart1 s) = Inr (t, rows)"
    by (auto simp: renderOrder_def split: sum.splits)
  have a: "order_total (books1 s) (Num 0) (cart1 s) = Inr t"
    using renderOrder_rows_total[of "books1 s" 0 "Num 0" "[]" "cart1 s"] r by simp
  have b: "foldl add (Num 0) (map row_price rows) = t"
    using renderOrder_rows_sum[OF r, of "Num 0"] by simp
  from False r a b show ?thesis
    by (simp add: renderOrder_def summary_matches_cart_def)
qed

lemma toggleBook_matches:
  "snd (toggleBook index s) = None \<Longrightarrow> summary_matches_cart (fst (toggleBook index s))"
  using renderOrder_matches by (simp add: toggleBook_def Let_def)

lemma updateQuantity_matches:
  "snd (updateQuantity index qty s) = None \<Longrightarrow> summary_matches_cart (fst (updateQuantity index qty s))"
  using renderOrder_matches by (auto simp: updateQuantity_def split: if_splits)

lemma removeItem1_matches:
  "snd (removeItem1 index s) = None \<Longrightarrow> summary_matches_cart (fst (removeItem1 index s))"
  using renderOrder_matches by (simp add: removeItem1_def)

text \<open>
  In App the two amounts are written differently: the term of \<^verbatim>\<open>subtotal\<close> is
  \<^verbatim>\<open>(Number(it.price) || 0) * it.qty\<close>, the line shows \<^verbatim>\<open>it.qty * Number(it.price || 0)\<close>.
  They agree on every price but a text that is no numeral.
\<close>

lemma price_or_zero:
  "p \<noteq> JText NaN \<Longrightarrow> or_num (Number p) (Num 0) = Number (or_else p (JNum (Num 0)))"
proof (cases p)
  case (JNum a)
  then show ?thesis by (cases a) (simp_all add: or_num_def or_else_def)
next
  case (JText a)
  assume "p \<noteq> JText NaN"
  with JText show ?thesis by (cases a) (simp_all add: or_num_def or_else_def)
qed (simp_all add: or_num_def or_else_def)

lemma subtotal_lines:
  assumes "\<forall>it \<in> set c. price2 it \<noteq> JText NaN"
  shows "subtotal c = foldl add (Num 0) (map line_amount c)"
proof -
  have "foldl (\<lambda>s it. add s (mul (or_num (Number (price2 it)) (Num 0)) (qty2 it))) a c
      = foldl (\<lambda>s it. add s (line_amount it)) a c" for a
    using assms
  proof (induction c arbitrary: a)
    case Nil
    then show ?case by simp
  next
    case (Cons it c)
    then have "price2 it \<noteq> JText NaN" by simp
    then have "mul (or_num (Number (price2 it)) (Num 0)) (qty2 it) = line_amount it"
      by (simp add: line_amount_def price_or_zero mul_commute)
    with Cons show ?case by simp
  qed
  then show ?thesis by (simp add: subtotal_def foldl_map)
qed

text \<open>
  C4 fails in App. A row of the sheet whose price cell holds a text that is no numeral,
  as \<^verbatim>\<open>1,250\<close>, reaches the cart with that text as its price. With the sample book at 100
  and such a row in the cart, \<^verbatim>\<open>subtotal\<close> counts the row as 0 and is 100, while the line
  of the row is handed NaN, so that the sum of the amounts of the lines is NaN: the
  subtotal is not the sum of the lines the panel shows. (On the other prices, and in the
  other two front ends, the total is the sum of the lines: \<open>subtotal_lines\<close>,
  \<open>total3_lines\<close>, \<open>renderOrder_matches\<close>.)
\<close>

theorem subtotal_skips_text_price:
  "price2 row_T = JText NaN
   \<and> addToCart2 row_T (addToCart2 row_A [])
       = [Book2.extend row_A (Item2.fields (Num 1)), Book2.extend row_T (Item2.fields (Num 1))]
   \<and> subtotal (addToCart2 row_T (addToCart2 row_A [])) = Num 100
   \<and> map line_amount (addToCart2 row_T (addToCart2 row_A [])) = [Num 100, NaN]
   \<and> foldl add (Num 0) (map line_amount (addToCart2 row_T (addToCart2 row_A []))) = NaN"
proof -
  have c: "addToCart2 row_T (addToCart2 row_A [])
      = [Book2.extend row_A (Item2.fields (Num 1)), Book2.extend row_T (Item2.fields (Num 1))]"
    by (simp add: addToCart2_def row_A_def row_T_def Book2.defs)
  have 1: "price2 row_T = JText NaN" by (simp add: row_T_def)
  have 2: "subtotal (addToCart2 row_T (addToCart2 row_A [])) = Num 100"
    unfolding c by (simp add: subtotal_def or_num_def row_A_def row_T_def Book2.defs Item2.defs fl_Ints)
  have 3: "map line_amount (addToCart2 row_T (addToCart2 row_A [])) = [Num 100, NaN]"
    unfolding c
    by (simp add: line_amount_def or_else_def row_A_def row_T_def Book2.defs Item2.defs fl_Ints)
  have 4: "foldl add (Num 0) (map line_amount (addToCart2 row_T (addToCart2 row_A []))) = NaN"
    unfolding 3 by (simp add: fl_Ints)
  from c 1 2 3 4 show ?thesis by blast
qed

section \<open>Filtering the catalog\<close>

lemma filtered_sub: "subseq (filtered lower s) (books2 s)"
  unfolding filtered_def Let_def by (rule subseq_filter_left)

lemma filtered_set: "set (filtered lower s) \<subseteq> set (books2 s)"
  unfolding filtered_def Let_def by (rule filter_is_subset)

lemma filtered_idem: "filtered lower (s\<lparr>books2 := filtered lower s\<rparr>) = filtered lower s"
  unfolding filtered_def Let_def by (simp split del: if_split cong: if_cong)

lemma boxes_shown:
  "map (\<lambda>e. (pre @ xs) ! box_value e)
     (concat (map (\<lambda>(index, b). if P b then []
                                 else [\<lparr>checked = C index, box_value = index, box_text = T b\<rparr>])
                  (enumerate (length pre) xs)))
   = filter (\<lambda>b. \<not> P b) xs"
proof (induction xs arbitrary: pre)
  case Nil
  then show ?case by simp
next
  case (Cons x xs)
  have "map (\<lambda>e. ((pre @ [x]) @ xs) ! box_value e)
     (concat (map (\<lambda>(index, b). if P b then []
                                 else [\<lparr>checked = C index, box_value = index, box_text = T b\<rparr>])
                  (enumerate (length (pre @ [x])) xs)))
   = filter (\<lambda>b. \<not> P b) xs"
    by (rule Cons.IH)
  then show ?case by simp
qed

lemma renderBooks_shown:
  "shown_books (renderBooks flt v s) =
     filter (\<lambda>b. \<not> (v \<noteq> [] \<and> book_prop b flt \<noteq> Some v)) (books1 s)"
  using boxes_shown[of "[]" "books1 s" "\<lambda>b. v \<noteq> [] \<and> book_prop b flt \<noteq> Some v"]
  by (simp add: shown_books_def renderBooks_def)

text \<open>
  C7. Filtering gives a part of the catalog in the catalog's order, leaves the catalog as
  it is, and filtering the result again under the same settings changes nothing. For App
  this is \<^verbatim>\<open>filtered\<close>, a value computed from the state, which it cannot write, whatever
  function \<open>lower\<close> the host has for \<^verbatim>\<open>toLowerCase\<close>; for the
  plain script it is the list of check boxes \<^verbatim>\<open>renderBooks\<close> writes, read as the books
  they stand for.
\<close>

theorem filter_stable_idempotent:
  "subseq (filtered lower s) (books2 s)
   \<and> set (filtered lower s) \<subseteq> set (books2 s)
   \<and> filtered lower (s\<lparr>books2 := filtered lower s\<rparr>) = filtered lower s
   \<and> subseq (shown_books (renderBooks flt v p)) (books1 p)
   \<and> set (shown_books (renderBooks flt v p)) \<subseteq> set (books1 p)
   \<and> books1 (renderBooks flt v p) = books1 p
   \<and> shown_books (renderBooks flt v (p\<lparr>books1 := shown_books (renderBooks flt v p)\<rparr>))
       = shown_books (renderBooks flt v p)"
proof -
  have "books1 (renderBooks flt v p) = books1 p" by (simp add: renderBooks_def)
  then show ?thesis
    using filtered_sub[of lower s] filtered_idem[of lower s] filtered_set[of lower s]
    by (simp add: renderBooks_shown)
qed

section \<open>Submitting and printing\<close>

text \<open>
  C5. Submitting with an empty cart is blocked in the page: the handler alerts the user
  and returns, the state is the one it found, and no request is sent. This holds for the
  plain script and for App; the client-only page has no submission.
\<close>

theorem empty_cart_blocks_submit:
  "(cart1 s = [] \<longrightarrow>
      order_form_submit remote s =
        (s, None, [Alert ''Please select at least one book before confirming order.''])
      \<and> requests (snd (snd (order_form_submit remote s))) = [])
   \<and> (cart2 a = [] \<longrightarrow>
      submitOrder remote2 a = (a, [Alert ''Your cart is empty.''])
      \<and> requests (snd (submitOrder remote2 a)) = [])"
  by (simp add: order_form_submit_def submitOrder_def)

theorem empty_cart_blocks_submit_witness:
  "order_form_submit (Resolves True (Inr (Some ''7''))) sample_page =
     (sample_page, None, [Alert ''Please select at least one book before confirming order.''])
   \<and> submitOrder (Resolves True (Inr None)) (sample_app\<lparr>cart2 := []\<rparr>) =
     (sample_app\<lparr>cart2 := []\<rparr>, [Alert ''Your cart is empty.''])"
  using empty_cart_blocks_submit [of sample_page "Resolves True (Inr (Some ''7''))"
      "sample_app\<lparr>cart2 := []\<rparr>" "Resolves True (Inr None)"]
  by (simp add: sample_page_def)

text \<open>
  When the request fails as the handlers see it, the state stays and the user is told.
  For the plain script that is a request that rejects, or a reply whose body does not
  parse; for App it is also a response whose status is not ok.
\<close>

lemma order_form_submit_failure:
  assumes "remote = Rejects err \<or> remote = Resolves ok (Inl err)"
  shows "fst (order_form_submit remote s) = s"
    and "cart1 s \<noteq> [] \<Longrightarrow> order_total (books1 s) (Num 0) (cart1 s) = Inr t \<Longrightarrow>
         alerts (snd (snd (order_form_submit remote s))) = [''Failed to submit order. Please try again.'']"
  using assms by (auto simp: order_form_submit_def Let_def split: sum.splits)

lemma submitOrder_failure:
  assumes "remote = Rejects err \<or> remote = Resolves False body \<or> remote = Resolves True (Inl err)"
    and "cart2 a \<noteq> []"
  shows "cart2 (fst (submitOrder remote a)) = cart2 a"
    and "fullName (fst (submitOrder remote a)) = fullName a"
    and "email2 (fst (submitOrder remote a)) = email2 a"
    and "phone2 (fst (submitOrder remote a)) = phone2 a"
    and "fbName (fst (submitOrder remote a)) = fbName a"
    and "pickup2 (fst (submitOrder remote a)) = pickup2 a"
    and "notes2 (fst (submitOrder remote a)) = notes2 a"
    and "paymentFile (fst (submitOrder remote a)) = paymentFile a"
    and "length (alerts (snd (submitOrder remote a))) = 1"
  using assms by (auto simp: submitOrder_def Let_def)

lemma order_form_submit_any_status:
  assumes "cart1 s \<noteq> []" and "order_total (books1 s) (Num 0) (cart1 s) = Inr t"
  shows "cart1 (fst (order_form_submit (Resolves ok (Inr response)) s)) = []"
    and "order_form (fst (order_form_submit (Resolves ok (Inr response)) s)) = order_form_defaults s"
  using assms by (simp_all add: order_form_submit_def Let_def renderOrder_def)

text \<open>
  C6 fails on the plain script. Its submit handler does not read the status of the
  response: when the server turns the order down with an error status and a body that
  parses, the handler confirms the order, resets the form and empties the cart, where the
  claim keeps the cart and the form and has a failure notice. App, on the same response,
  keeps them.
\<close>

theorem order_form_submit_ignores_status:
  "cart1 (fst (toggleBook 0 sample_page)) = [\<lparr>book1 = Some 0, quantity = Num 1\<rparr>]
   \<and> order_form (fst (toggleBook 0 sample_page)) = blank_form\<lparr>fullname := ''Ann''\<rparr>
   \<and> cart1 (fst (order_form_submit (Resolves False (Inr None)) (fst (toggleBook 0 sample_page)))) = []
   \<and> order_form (fst (order_form_submit (Resolves False (Inr None)) (fst (toggleBook 0 sample_page))))
       = blank_form
   \<and> alerts (snd (snd (order_form_submit (Resolves False (Inr None)) (fst (toggleBook 0 sample_page)))))
       = [''Order confirmed! Your Order ID: undefined'']
   \<and> cart2 (fst (submitOrder (Resolves False (Inr None)) sample_app)) = cart2 sample_app
   \<and> alerts (snd (submitOrder (Resolves False (Inr None)) sample_app)) = [''Failed to submit order'']"
  by (simp add: order_form_submit_def toggleBook_def renderOrder_def submitOrder_def Let_def
        sample_page_def sample_app_def books_at_def the_book_def or_else_def fl_Ints)

text \<open>
  C9. In the client-only page, printing the slip asks the host for its print dialog and
  for nothing else: no request is sent, and the state, so the cart and its total, is the
  one before.
\<close>

theorem printSlip_frame:
  "fst (printSlip s) = s
   \<and> cart3 (fst (printSlip s)) = cart3 s
   \<and> total3 (cart3 (fst (printSlip s))) = total3 (cart3 s)
   \<and> snd (printSlip s) = [Print]
   \<and> requests (snd (printSlip s)) = []"
  by (simp add: printSlip_def)

end

